theory Spec2Isabelle
  imports Complex_Main "HOL-Library.Word"
begin

unbundle bit_operations_syntax

section \<open>The OpenNI vocabulary that camera.cpp uses\<close>

text \<open>
  The enumerations of the sensor SDK, as far as \<^verbatim>\<open>camera.cpp\<close> names them
  (\<^verbatim>\<open>toString\<close>, lines 58-99, lists the pixel formats and the sensor kinds).
\<close>

datatype Status =
    STATUS_OK
  | STATUS_ERROR
  | STATUS_NOT_IMPLEMENTED
  | STATUS_NOT_SUPPORTED
  | STATUS_BAD_PARAMETER
  | STATUS_OUT_OF_FLOW
  | STATUS_NO_DEVICE
  | STATUS_TIME_OUT

datatype PixelFormat =
    PIXEL_FORMAT_DEPTH_1_MM
  | PIXEL_FORMAT_DEPTH_100_UM
  | PIXEL_FORMAT_SHIFT_9_2
  | PIXEL_FORMAT_SHIFT_9_3
  | PIXEL_FORMAT_RGB888
  | PIXEL_FORMAT_YUV422
  | PIXEL_FORMAT_GRAY8
  | PIXEL_FORMAT_GRAY16
  | PIXEL_FORMAT_JPEG

datatype SensorType = SENSOR_IR | SENSOR_COLOR | SENSOR_DEPTH

datatype ImageRegistrationMode =
    IMAGE_REGISTRATION_OFF
  | IMAGE_REGISTRATION_DEPTH_TO_COLOR

record VideoMode =
  resolutionX :: int
  resolutionY :: int
  fps :: int
  pixelFormat :: PixelFormat

section \<open>The hardware behind the SDK\<close>

text \<open>
  The SDK is outside the repository, so what the device answers is a parameter of
  every operation. Each stream counts its fallible SDK calls (\<open>start\<close>,
  \<open>create\<close>, \<open>setVideoMode\<close>); \<open>answer hw t n\<close> is the status the device
  returns to call number \<open>n\<close> on the stream of sensor kind \<open>t\<close>. An accepted
  \<open>setVideoMode\<close> installs the requested mode; after a rejected one the mode in force
  is \<open>rejected_mode hw current requested\<close>, whatever the driver left behind (the
  current mode again for a driver that rejects atomically). A freshly created stream
  is in the mode \<open>created_mode hw t\<close>.
\<close>

record Hardware =
  answer :: "SensorType \<Rightarrow> nat \<Rightarrow> Status"
  rejected_mode :: "VideoMode \<Rightarrow> VideoMode \<Rightarrow> VideoMode"
  created_mode :: "SensorType \<Rightarrow> VideoMode"
  registration_supported :: bool

text \<open>The state of one \<^verbatim>\<open>openni::VideoStream\<close> handle.\<close>

record VideoStream =
  valid :: bool
  sensorType :: SensorType
  videoMode :: VideoMode
  started :: bool
  listeners :: nat
  calls :: nat

definition sdk_start :: "Hardware \<Rightarrow> VideoStream \<Rightarrow> Status \<times> VideoStream" where
  "sdk_start hw st =
     (let rc = answer hw (sensorType st) (calls st)
      in (rc, st\<lparr>started := (started st \<or> rc = STATUS_OK), calls := Suc (calls st)\<rparr>))"

definition sdk_stop :: "VideoStream \<Rightarrow> VideoStream" where
  "sdk_stop st = st\<lparr>started := False\<rparr>"

definition sdk_destroy :: "VideoStream \<Rightarrow> VideoStream" where
  "sdk_destroy st = st\<lparr>valid := False, started := False, listeners := 0\<rparr>"

definition sdk_create :: "Hardware \<Rightarrow> SensorType \<Rightarrow> VideoStream \<Rightarrow> Status \<times> VideoStream" where
  "sdk_create hw t st =
     (let rc = answer hw t (calls st)
      in (rc,
          if rc = STATUS_OK
          then st\<lparr>valid := True, sensorType := t, videoMode := created_mode hw t,
                  started := False, listeners := 0, calls := Suc (calls st)\<rparr>
          else st\<lparr>calls := Suc (calls st)\<rparr>))"

definition sdk_addNewFrameListener :: "VideoStream \<Rightarrow> VideoStream" where
  "sdk_addNewFrameListener st = st\<lparr>listeners := Suc (listeners st)\<rparr>"

definition sdk_removeNewFrameListener :: "VideoStream \<Rightarrow> VideoStream" where
  "sdk_removeNewFrameListener st = st\<lparr>listeners := listeners st - 1\<rparr>"

definition sdk_setVideoMode :: "Hardware \<Rightarrow> VideoMode \<Rightarrow> VideoStream \<Rightarrow> Status \<times> VideoStream" where
  "sdk_setVideoMode hw m st =
     (let rc = answer hw (sensorType st) (calls st)
      in (rc,
          st\<lparr>videoMode := (if rc = STATUS_OK then m else rejected_mode hw (videoMode st) m),
             calls := Suc (calls st)\<rparr>))"

section \<open>Observable effects\<close>

text \<open>
  Every controller appends what it does to one trace: its SDK calls with the status
  they returned, the 100 ms sleep of the recovery loop, its log lines and the frames
  it hands to a publisher. \<open>BeginConfigure\<close> and \<open>EndConfigure\<close> mark the entry of
  the two methods, so that the order in which the camera visits its sensors shows in
  the trace even when a visit makes no SDK call.
\<close>

datatype CameraPublisher =
    publisher
  | depth_registered_publisher
  | disparity_publisher
  | disparity_registered_publisher

datatype Severity = INFO | WARN | ERROR

datatype Message =
    Failed_to_restart_stream_after_configuration
  | Recovery_trial_failed int
  | Failed_to_recover_stream_Restart_required
  | Recovered_stream
  | Failed_to_recover_old_video_mode
  | Unknown_OpenNI_pixel_format

record Image =
  img_stamp :: nat
  img_frame_id :: string
  img_height :: "32 word"
  img_width :: "32 word"
  img_encoding :: string
  img_step :: "32 word"
  img_data :: "8 word list"

record CameraInfo =
  info_stamp :: nat
  info_frame_id :: string
  info_width :: "32 word"
  info_height :: "32 word"
  K :: "rat list"
  P :: "rat list"

datatype Action =
    BeginConfigure
  | EndConfigure
  | Start Status
  | Stop
  | Destroy
  | Create SensorType Status
  | AddNewFrameListener
  | RemoveNewFrameListener
  | SetVideoMode VideoMode Status
  | SetMirroringEnabled bool
  | SetAutoExposureEnabled bool
  | SetAutoWhiteBalanceEnabled bool
  | Sleep_ms nat
  | Log Severity Message
  | Publish CameraPublisher Image CameraInfo

datatype Event =
    Ctl string Action
  | SetImageRegistrationMode ImageRegistrationMode
  | SetDepthColorSyncEnabled bool

section \<open>SensorStreamManager\<close>

text \<open>
  The fields of \<^verbatim>\<open>class SensorStreamManager\<close> (lines 145-158) that its methods
  read or write; the member names lose their trailing underscore. \<open>trace\<close> is the
  sequence of effects so far.
\<close>

record SensorStreamManager =
  stream :: VideoStream
  default_mode :: VideoMode
  name :: string
  frame_id :: string
  running :: bool
  was_running :: bool
  trace :: "Event list"

definition emit :: "Action \<Rightarrow> 'a SensorStreamManager_scheme \<Rightarrow> 'a SensorStreamManager_scheme" where
  "emit a s = s\<lparr>trace := trace s @ [Ctl (name s) a]\<rparr>"

definition stream_start ::
  "Hardware \<Rightarrow> 'a SensorStreamManager_scheme \<Rightarrow> Status \<times> 'a SensorStreamManager_scheme" where
  "stream_start hw s =
     (let (rc, st) = sdk_start hw (stream s) in (rc, emit (Start rc) (s\<lparr>stream := st\<rparr>)))"

definition stream_stop :: "'a SensorStreamManager_scheme \<Rightarrow> 'a SensorStreamManager_scheme" where
  "stream_stop s = emit Stop (s\<lparr>stream := sdk_stop (stream s)\<rparr>)"

definition stream_destroy :: "'a SensorStreamManager_scheme \<Rightarrow> 'a SensorStreamManager_scheme" where
  "stream_destroy s = emit Destroy (s\<lparr>stream := sdk_destroy (stream s)\<rparr>)"

definition stream_create ::
  "Hardware \<Rightarrow> SensorType \<Rightarrow> 'a SensorStreamManager_scheme \<Rightarrow> Status \<times> 'a SensorStreamManager_scheme" where
  "stream_create hw t s =
     (let (rc, st) = sdk_create hw t (stream s) in (rc, emit (Create t rc) (s\<lparr>stream := st\<rparr>)))"

definition stream_addNewFrameListener ::
  "'a SensorStreamManager_scheme \<Rightarrow> 'a SensorStreamManager_scheme" where
  "stream_addNewFrameListener s =
     emit AddNewFrameListener (s\<lparr>stream := sdk_addNewFrameListener (stream s)\<rparr>)"

definition stream_removeNewFrameListener ::
  "'a SensorStreamManager_scheme \<Rightarrow> 'a SensorStreamManager_scheme" where
  "stream_removeNewFrameListener s =
     emit RemoveNewFrameListener (s\<lparr>stream := sdk_removeNewFrameListener (stream s)\<rparr>)"

definition stream_setVideoMode ::
  "Hardware \<Rightarrow> VideoMode \<Rightarrow> 'a SensorStreamManager_scheme \<Rightarrow> Status \<times> 'a SensorStreamManager_scheme" where
  "stream_setVideoMode hw m s =
     (let (rc, st) = sdk_setVideoMode hw m (stream s)
      in (rc, emit (SetVideoMode m rc) (s\<lparr>stream := st\<rparr>)))"

text \<open>\<^verbatim>\<open>SensorStreamManager::beginConfigure\<close>, lines 200-207.\<close>

definition beginConfigure ::
  "'a SensorStreamManager_scheme \<Rightarrow> bool \<times> 'a SensorStreamManager_scheme" where
  "beginConfigure s0 =
     (let s1 = emit BeginConfigure s0;
          s2 = s1\<lparr>was_running := running s1\<rparr>;
          s3 = (if was_running s2 then stream_stop s2 else s2);
          s4 = s3\<lparr>running := False\<rparr>
      in (True, s4))"

text \<open>
  The recovery loop of \<^verbatim>\<open>endConfigure\<close>, lines 222-234:
  \<^verbatim>\<open>for(int trials = 0; trials < max_trials && rc != STATUS_OK; ++trials)\<close>.
  The status of \<^verbatim>\<open>create\<close> is not looked at, and the line that would set the
  default video mode again is commented out in the source.
\<close>

definition recovery_trial ::
  "Hardware \<Rightarrow> SensorType \<Rightarrow> int \<Rightarrow> 'a SensorStreamManager_scheme
     \<Rightarrow> Status \<times> 'a SensorStreamManager_scheme" where
  "recovery_trial hw t trials s0 =
     (let s1 = emit (Sleep_ms 100) s0;
          s2 = stream_removeNewFrameListener s1;
          s3 = stream_destroy s2;
          s4 = snd (stream_create hw t s3);
          s5 = stream_addNewFrameListener s4;
          (rc, s6) = stream_start hw s5;
          s7 = (if rc \<noteq> STATUS_OK then emit (Log WARN (Recovery_trial_failed trials)) s6 else s6)
      in (rc, s7))"

function recovery_loop ::
  "Hardware \<Rightarrow> SensorType \<Rightarrow> int \<Rightarrow> int \<Rightarrow> Status \<Rightarrow> 'a SensorStreamManager_scheme
     \<Rightarrow> Status \<times> 'a SensorStreamManager_scheme" where
  "recovery_loop hw t max_trials trials rc s =
     (if trials < max_trials \<and> rc \<noteq> STATUS_OK
      then recovery_loop hw t max_trials (trials + 1)
             (fst (recovery_trial hw t trials s)) (snd (recovery_trial hw t trials s))
      else (rc, s))"
  by pat_completeness auto
termination
  by (relation "measure (\<lambda>(hw, t, max_trials, trials, rc, s). nat (max_trials - trials))") auto

declare recovery_loop.simps [simp del]

text \<open>
  \<^verbatim>\<open>SensorStreamManager::endConfigure\<close>, lines 209-245. The source fixes
  \<^verbatim>\<open>int max_trials = 1\<close>; \<open>endConfigure_with\<close> takes the bound as an argument and
  \<open>endConfigure\<close> is the method as written.
\<close>

definition max_trials :: int where
  "max_trials = 1"

definition endConfigure_with ::
  "int \<Rightarrow> Hardware \<Rightarrow> 'a SensorStreamManager_scheme \<Rightarrow> 'a SensorStreamManager_scheme" where
  "endConfigure_with mt hw s0 =
     (let s1 = emit EndConfigure s0
      in if was_running s1
         then
           (let (rc, s2) = stream_start hw s1;
                (rc', s3) =
                  (if rc \<noteq> STATUS_OK
                   then
                     (let t = sensorType (stream s2);
                          s2a = emit (Log WARN Failed_to_restart_stream_after_configuration) s2;
                          (rc2, s2b) = recovery_loop hw t mt 0 rc s2a;
                          s2c = (if rc2 \<noteq> STATUS_OK
                                 then emit (Log ERROR Failed_to_recover_stream_Restart_required) s2b
                                 else s2b);
                          s2d = (if rc2 = STATUS_OK then emit (Log INFO Recovered_stream) s2c else s2c)
                      in (rc2, s2d))
                   else (rc, s2))
            in if rc' = STATUS_OK then s3\<lparr>running := True\<rparr> else s3)
         else s1)"

definition endConfigure ::
  "Hardware \<Rightarrow> 'a SensorStreamManager_scheme \<Rightarrow> 'a SensorStreamManager_scheme" where
  "endConfigure hw s = endConfigure_with max_trials hw s"

text \<open>\<^verbatim>\<open>SensorStreamManager::tryConfigureVideoMode\<close>, lines 247-259.\<close>

definition tryConfigureVideoMode ::
  "Hardware \<Rightarrow> VideoMode \<Rightarrow> 'a SensorStreamManager_scheme \<Rightarrow> bool \<times> 'a SensorStreamManager_scheme" where
  "tryConfigureVideoMode hw m s0 =
     (let old = videoMode (stream s0);
          (rc, s1) = stream_setVideoMode hw m s0
      in if rc \<noteq> STATUS_OK
         then
           (let (rc_old, s2) = stream_setVideoMode hw old s1;
                s3 = (if rc_old \<noteq> STATUS_OK
                      then emit (Log ERROR Failed_to_recover_old_video_mode) s2 else s2)
            in (False, s3))
         else (True, s1))"

text \<open>
  \<^verbatim>\<open>SensorStreamManager::onSubscriptionChanged\<close>, lines 261-275; \<open>n\<close> is
  \<^verbatim>\<open>topic.getNumSubscribers()\<close>.
\<close>

definition onSubscriptionChanged ::
  "Hardware \<Rightarrow> nat \<Rightarrow> 'a SensorStreamManager_scheme \<Rightarrow> 'a SensorStreamManager_scheme" where
  "onSubscriptionChanged hw n s =
     (if n > 0
      then
        (if \<not> running s
         then (let (rc, s1) = stream_start hw s
               in if rc = STATUS_OK then s1\<lparr>running := True\<rparr> else s1)
         else s)
      else (stream_stop s)\<lparr>running := False\<rparr>)"

text \<open>
  \<^verbatim>\<open>SensorStreamManager::publish\<close>, lines 161-164: the frame goes to
  \<^verbatim>\<open>publisher_\<close>.
\<close>

definition publish ::
  "Image \<Rightarrow> CameraInfo \<Rightarrow> 'a SensorStreamManager_scheme \<Rightarrow> 'a SensorStreamManager_scheme" where
  "publish img camera_info s = emit (Publish publisher img camera_info) s"

section \<open>Double arithmetic\<close>

text \<open>
  \<^verbatim>\<open>onNewFrame\<close> computes in \<^verbatim>\<open>double\<close>. A finite double is a rational
  number; \<open>binary64 x\<close> is the double nearest to the exact result \<open>x\<close>, ties to the
  even significand, with 53 bits of precision and gradual underflow below
  \<open>2^-1022\<close>. The results of \<^verbatim>\<open>onNewFrame\<close> stay far below the largest finite
  double (the arguments are 32-bit integers), so overflow to infinity is left out.
\<close>

definition round_ties_even :: "rat \<Rightarrow> int" where
  "round_ties_even x =
     (let f = \<lfloor>x\<rfloor>; d = x - of_int f
      in if d < 1 / 2 then f else if 1 / 2 < d then f + 1 else if even f then f else f + 1)"

definition pow2 :: "int \<Rightarrow> rat" where
  "pow2 e = (if 0 \<le> e then 2 ^ nat e else 1 / 2 ^ nat (- e))"

fun bit_length :: "nat \<Rightarrow> nat" where
  "bit_length n = (if n = 0 then 0 else Suc (bit_length (n div 2)))"

declare bit_length.simps [simp del]

text \<open>For \<open>0 < x\<close>, \<open>ilog2 x\<close> is the exponent \<open>e\<close> with \<open>2^e \<le> x < 2^(e+1)\<close>.\<close>

definition ilog2 :: "rat \<Rightarrow> int" where
  "ilog2 x =
     (if 1 \<le> x then int (bit_length (nat \<lfloor>x\<rfloor>)) - 1
      else - int (bit_length (nat (\<lceil>1 / x\<rceil> - 1))))"

definition binary64 :: "rat \<Rightarrow> rat" where
  "binary64 x =
     (if x = 0 then 0
      else (let a = \<bar>x\<bar>;
                u = pow2 (max (ilog2 a) (- 1022) - 52)
            in sgn x * of_int (round_ties_even (a / u)) * u))"

section \<open>Frames\<close>

text \<open>What \<^verbatim>\<open>onNewFrame\<close> reads of the \<^verbatim>\<open>VideoFrameRef\<close>.\<close>

record VideoFrameRef =
  frame_width :: int
  frame_height :: int
  frame_strideInBytes :: int
  frame_videoMode :: VideoMode
  frame_data :: "8 word list"

text \<open>
  The switch of lines 304-325. The default branch logs a warning and leaves the
  encoding as the message constructor made it, the empty string.
\<close>

definition encoding_of :: "PixelFormat \<Rightarrow> string option" where
  "encoding_of f =
     (case f of
        PIXEL_FORMAT_GRAY8 \<Rightarrow> Some ''mono8''
      | PIXEL_FORMAT_GRAY16 \<Rightarrow> Some ''mono16''
      | PIXEL_FORMAT_YUV422 \<Rightarrow> Some ''yuv422''
      | PIXEL_FORMAT_RGB888 \<Rightarrow> Some ''rgb8''
      | PIXEL_FORMAT_SHIFT_9_2 \<Rightarrow> Some ''16UC1''
      | PIXEL_FORMAT_DEPTH_1_MM \<Rightarrow> Some ''16UC1''
      | _ \<Rightarrow> None)"

text \<open>Lines 287-302: the \<^verbatim>\<open>CameraInfo\<close> of a frame, stamped \<open>ts\<close>.\<close>

definition camera_info_of :: "nat \<Rightarrow> string \<Rightarrow> VideoFrameRef \<Rightarrow> CameraInfo" where
  "camera_info_of ts fid frame =
     (let scale = binary64 (of_int (frame_width frame) / 1280);
          f = binary64 (1050 * scale);
          cx = binary64 (binary64 (of_int (frame_width frame) / 2) - 1 / 2);
          cy = binary64 (binary64 (of_int (frame_height frame) / 2) - 1 / 2)
      in \<lparr>info_stamp = ts,
          info_frame_id = fid,
          info_width = word_of_int (frame_width frame),
          info_height = word_of_int (frame_height frame),
          K = (replicate 9 0)[0 := f, 4 := f, 2 := cx, 5 := cy],
          P = (replicate 12 0)[0 := f, 5 := f, 2 := cx, 6 := cy]\<rparr>)"

text \<open>Lines 304-332: the \<^verbatim>\<open>Image\<close> of a frame.\<close>

definition image_of :: "nat \<Rightarrow> string \<Rightarrow> VideoFrameRef \<Rightarrow> Image" where
  "image_of ts fid frame =
     \<lparr>img_stamp = ts,
      img_frame_id = fid,
      img_height = word_of_int (frame_height frame),
      img_width = word_of_int (frame_width frame),
      img_encoding =
        (case encoding_of (pixelFormat (frame_videoMode frame)) of Some e \<Rightarrow> e | None \<Rightarrow> []),
      img_step = word_of_int (frame_strideInBytes frame),
      img_data = frame_data frame\<rparr>"

text \<open>
  \<^verbatim>\<open>SensorStreamManager::onNewFrame\<close>, lines 277-335, up to its virtual call of
  \<^verbatim>\<open>publish\<close>: \<open>ts\<close> is \<^verbatim>\<open>ros::Time::now()\<close> and \<open>frame\<close> what
  \<^verbatim>\<open>readFrame\<close> delivered.
\<close>

definition prepare_frame ::
  "nat \<Rightarrow> VideoFrameRef \<Rightarrow> 'a SensorStreamManager_scheme
     \<Rightarrow> (Image \<times> CameraInfo) \<times> 'a SensorStreamManager_scheme" where
  "prepare_frame ts frame s =
     (let info = camera_info_of ts (frame_id s) frame;
          s1 = (if encoding_of (pixelFormat (frame_videoMode frame)) = None
                then emit (Log WARN Unknown_OpenNI_pixel_format) s else s);
          img = image_of ts (frame_id s) frame
      in ((img, info), s1))"

definition onNewFrame ::
  "nat \<Rightarrow> VideoFrameRef \<Rightarrow> 'a SensorStreamManager_scheme \<Rightarrow> 'a SensorStreamManager_scheme" where
  "onNewFrame ts frame s =
     (let ((img, info), s1) = prepare_frame ts frame s in publish img info s1)"

section \<open>DepthSensorStreamManager\<close>

text \<open>The device-wide settings that \<^verbatim>\<open>camera.cpp\<close> reads or writes.\<close>

record Device =
  registrationMode :: ImageRegistrationMode
  depthColorSyncEnabled :: bool

text \<open>
  \<^verbatim>\<open>class DepthSensorStreamManager\<close>, lines 338-344. \<open>active_publisher\<close> is
  the pointer \<^verbatim>\<open>active_publisher_\<close>: \<open>None\<close> for the null pointer, otherwise the
  publisher it points to.
\<close>

record DepthSensorStreamManager = SensorStreamManager +
  active_publisher :: "CameraPublisher option"
  rgb_frame_id :: string
  depth_frame_id :: string

text \<open>\<^verbatim>\<open>DepthSensorStreamManager::publish\<close>, lines 346-350.\<close>

definition depth_publish ::
  "Image \<Rightarrow> CameraInfo \<Rightarrow> DepthSensorStreamManager \<Rightarrow> DepthSensorStreamManager" where
  "depth_publish img camera_info s =
     (case active_publisher s of
        None \<Rightarrow> s
      | Some p \<Rightarrow> emit (Publish p img camera_info) s)"

text \<open>\<^verbatim>\<open>DepthSensorStreamManager::updateActivePublisher\<close>, lines 352-381.\<close>

definition updateActivePublisher ::
  "Device \<Rightarrow> DepthSensorStreamManager \<Rightarrow> DepthSensorStreamManager" where
  "updateActivePublisher dev s0 =
     (let (p_depth, p_disparity, s1) =
            (if registrationMode dev = IMAGE_REGISTRATION_DEPTH_TO_COLOR
             then (depth_registered_publisher, disparity_registered_publisher,
                   s0\<lparr>frame_id := rgb_frame_id s0\<rparr>)
             else (publisher, disparity_publisher, s0\<lparr>frame_id := depth_frame_id s0\<rparr>))
      in if pixelFormat (videoMode (stream s1)) = PIXEL_FORMAT_DEPTH_1_MM
         then s1\<lparr>active_publisher := Some p_depth\<rparr>
         else if pixelFormat (videoMode (stream s1)) = PIXEL_FORMAT_SHIFT_9_2
         then s1\<lparr>active_publisher := Some p_disparity\<rparr>
         else s1\<lparr>active_publisher := None\<rparr>)"

text \<open>
  The sum of lines 398-400. \<^verbatim>\<open>getNumSubscribers\<close> returns \<^verbatim>\<open>uint32_t\<close>, so
  each of the two inner sums is taken in 32 bits before it is widened to
  \<^verbatim>\<open>size_t\<close>.
\<close>

definition all_clients :: "(CameraPublisher \<Rightarrow> 32 word) \<Rightarrow> 64 word" where
  "all_clients subs =
     (let disparity_clients = (ucast (subs disparity_publisher + subs disparity_registered_publisher) :: 64 word);
          depth_clients = (ucast (subs publisher + subs depth_registered_publisher) :: 64 word)
      in disparity_clients + depth_clients)"

text \<open>\<^verbatim>\<open>DepthSensorStreamManager::onSubscriptionChanged\<close>, lines 396-416.\<close>

definition depth_onSubscriptionChanged ::
  "Hardware \<Rightarrow> Device \<Rightarrow> (CameraPublisher \<Rightarrow> 32 word) \<Rightarrow> DepthSensorStreamManager
     \<Rightarrow> DepthSensorStreamManager" where
  "depth_onSubscriptionChanged hw dev subs s0 =
     (let s1 =
            (if \<not> running s0 \<and> all_clients subs > 0
             then (let (rc, s) = stream_start hw s0 in s\<lparr>running := (rc = STATUS_OK)\<rparr>)
             else if running s0 \<and> all_clients subs = 0
             then (stream_stop s0)\<lparr>running := False\<rparr>
             else s0)
      in if running s1 then updateActivePublisher dev s1 else s1)"

text \<open>\<^verbatim>\<open>DepthSensorStreamManager::endConfigure\<close>, lines 418-426.\<close>

definition depth_endConfigure ::
  "Hardware \<Rightarrow> Device \<Rightarrow> DepthSensorStreamManager \<Rightarrow> DepthSensorStreamManager" where
  "depth_endConfigure hw dev s0 =
     (let s1 = endConfigure hw s0
      in if running s1 then updateActivePublisher dev s1 else s1)"

text \<open>\<^verbatim>\<open>onNewFrame\<close> of the depth controller: the inherited method with the
  overriding \<^verbatim>\<open>publish\<close>.\<close>

definition depth_onNewFrame ::
  "nat \<Rightarrow> VideoFrameRef \<Rightarrow> DepthSensorStreamManager \<Rightarrow> DepthSensorStreamManager" where
  "depth_onNewFrame ts frame s =
     (let ((img, info), s1) = prepare_frame ts frame s in depth_publish img info s1)"

section \<open>CameraImpl\<close>

text \<open>
  The request of the reconfigure server (\<^verbatim>\<open>CameraConfig\<close>, generated outside
  \<^verbatim>\<open>camera.cpp\<close>): the fields that \<^verbatim>\<open>configure\<close> reads.
\<close>

record CameraConfig =
  rgb_resolution :: int
  depth_resolution :: int
  ir_resolution :: int
  auto_exposure :: bool
  auto_white_balance :: bool
  mirror :: bool
  depth_registration :: bool

text \<open>
  A sensor pointer of \<^verbatim>\<open>CameraImpl\<close> (line 653) holds a plain
  \<^verbatim>\<open>SensorStreamManagerBase\<close> until the constructor finds the sensor on the device
  and puts a controller there (lines 433-463). Of the base class only
  \<^verbatim>\<open>beginConfigure\<close> is ever called; it returns false (lines 129-132), and
  \<^verbatim>\<open>configure\<close> then skips the sensor, so the throwing methods of the base are
  not reached.
\<close>

datatype 'm Sensor = SensorStreamManagerBase | Manager 'm

definition base_beginConfigure :: bool where
  "base_beginConfigure = False"

record CameraImpl =
  rgb_sensor :: "SensorStreamManager Sensor"
  depth_sensor :: "DepthSensorStreamManager Sensor"
  ir_sensor :: "SensorStreamManager Sensor"
  resolutions :: "int \<rightharpoonup> VideoMode"
  device :: Device
  effects :: "Event list"

text \<open>
  The ways \<^verbatim>\<open>configure\<close> can stop early: an \<^verbatim>\<open>assert\<close> fails, or a method
  of the base class throws.
\<close>

datatype error = AssertionFailed | MethodNotSupportedException

text \<open>
  The resolution step that the three sensor blocks share (lines 569-575, 596-602,
  634-640): look the key up, assert that it is there, try the mode and drop the
  answer.
\<close>

definition configure_resolution ::
  "Hardware \<Rightarrow> (int \<rightharpoonup> VideoMode) \<Rightarrow> bool \<Rightarrow> int \<Rightarrow> 'a SensorStreamManager_scheme
     \<Rightarrow> error + 'a SensorStreamManager_scheme" where
  "configure_resolution hw res flagged key m =
     (if flagged
      then (case res key of
              None \<Rightarrow> Inl AssertionFailed
            | Some mode \<Rightarrow> Inr (snd (tryConfigureVideoMode hw mode m)))
      else Inr m)"

definition when_flagged ::
  "bool \<Rightarrow> Action \<Rightarrow> 'a SensorStreamManager_scheme \<Rightarrow> 'a SensorStreamManager_scheme" where
  "when_flagged flagged a m = (if flagged then emit a m else m)"

text \<open>
  The colour block of \<^verbatim>\<open>configure\<close>, lines 567-592. The camera hands its trace
  to the controller for the duration of the block and takes it back afterwards.
\<close>

definition configure_rgb ::
  "Hardware \<Rightarrow> CameraConfig \<Rightarrow> 32 word \<Rightarrow> CameraImpl \<Rightarrow> error + CameraImpl" where
  "configure_rgb hw cfg level cam =
     (case rgb_sensor cam of
        SensorStreamManagerBase \<Rightarrow> (if base_beginConfigure then Inl MethodNotSupportedException else Inr cam)
      | Manager m0 \<Rightarrow>
          (let (ok, m1) = beginConfigure (m0\<lparr>trace := effects cam\<rparr>)
           in if ok
              then
                (case configure_resolution hw (resolutions cam) (level AND 8 \<noteq> 0)
                        (rgb_resolution cfg) m1 of
                   Inl e \<Rightarrow> Inl e
                 | Inr m2 \<Rightarrow>
                     (let m3 = when_flagged (level AND 2 \<noteq> 0)
                                 (SetAutoExposureEnabled (auto_exposure cfg)) m2;
                          m4 = when_flagged (level AND 4 \<noteq> 0)
                                 (SetAutoWhiteBalanceEnabled (auto_white_balance cfg)) m3;
                          m5 = when_flagged (level AND 64 \<noteq> 0)
                                 (SetMirroringEnabled (mirror cfg)) m4;
                          m6 = endConfigure hw m5
                      in Inr (cam\<lparr>rgb_sensor := Manager m6, effects := trace m6\<rparr>)))
              else Inr cam))"

text \<open>
  The registration step of the depth block, lines 604-621. It may change the
  request, the device and the trace.
\<close>

definition configure_registration ::
  "Hardware \<Rightarrow> bool \<Rightarrow> CameraConfig \<times> Device \<times> Event list \<Rightarrow> CameraConfig \<times> Device \<times> Event list" where
  "configure_registration hw flagged x =
     (case x of (cfg, dev, tr) \<Rightarrow>
        if flagged
        then
          (if depth_registration cfg
           then
             (if registration_supported hw
              then (cfg, dev\<lparr>registrationMode := IMAGE_REGISTRATION_DEPTH_TO_COLOR\<rparr>,
                    tr @ [SetImageRegistrationMode IMAGE_REGISTRATION_DEPTH_TO_COLOR])
              else (cfg\<lparr>depth_registration := False\<rparr>, dev, tr))
           else (cfg, dev\<lparr>registrationMode := IMAGE_REGISTRATION_OFF\<rparr>,
                 tr @ [SetImageRegistrationMode IMAGE_REGISTRATION_OFF]))
        else (cfg, dev, tr))"

text \<open>The depth block of \<^verbatim>\<open>configure\<close>, lines 594-629.\<close>

definition configure_depth ::
  "Hardware \<Rightarrow> CameraConfig \<Rightarrow> 32 word \<Rightarrow> CameraImpl \<Rightarrow> error + CameraConfig \<times> CameraImpl" where
  "configure_depth hw cfg level cam =
     (case depth_sensor cam of
        SensorStreamManagerBase \<Rightarrow>
          (if base_beginConfigure then Inl MethodNotSupportedException else Inr (cfg, cam))
      | Manager m0 \<Rightarrow>
          (let (ok, m1) = beginConfigure (m0\<lparr>trace := effects cam\<rparr>)
           in if ok
              then
                (case configure_resolution hw (resolutions cam) (level AND 16 \<noteq> 0)
                        (depth_resolution cfg) m1 of
                   Inl e \<Rightarrow> Inl e
                 | Inr m2 \<Rightarrow>
                     (let (cfg', dev', tr') =
                            configure_registration hw (level AND 1 \<noteq> 0) (cfg, device cam, trace m2);
                          m3 = m2\<lparr>trace := tr'\<rparr>;
                          m4 = when_flagged (level AND 64 \<noteq> 0)
                                 (SetMirroringEnabled (mirror cfg')) m3;
                          m5 = depth_endConfigure hw dev' m4
                      in Inr (cfg', cam\<lparr>depth_sensor := Manager m5, device := dev',
                                        effects := trace m5\<rparr>)))
              else Inr (cfg, cam)))"

text \<open>The infrared block of \<^verbatim>\<open>configure\<close>, lines 632-648.\<close>

definition configure_ir ::
  "Hardware \<Rightarrow> CameraConfig \<Rightarrow> 32 word \<Rightarrow> CameraImpl \<Rightarrow> error + CameraImpl" where
  "configure_ir hw cfg level cam =
     (case ir_sensor cam of
        SensorStreamManagerBase \<Rightarrow> (if base_beginConfigure then Inl MethodNotSupportedException else Inr cam)
      | Manager m0 \<Rightarrow>
          (let (ok, m1) = beginConfigure (m0\<lparr>trace := effects cam\<rparr>)
           in if ok
              then
                (case configure_resolution hw (resolutions cam) (level AND 32 \<noteq> 0)
                        (ir_resolution cfg) m1 of
                   Inl e \<Rightarrow> Inl e
                 | Inr m2 \<Rightarrow>
                     (let m3 = when_flagged (level AND 64 \<noteq> 0)
                                 (SetMirroringEnabled (mirror cfg)) m2;
                          m4 = endConfigure hw m3
                      in Inr (cam\<lparr>ir_sensor := Manager m4, effects := trace m4\<rparr>)))
              else Inr cam))"

text \<open>
  \<^verbatim>\<open>CameraImpl::configure\<close>, lines 565-651. The request is passed by reference;
  the model returns it with the camera.
\<close>

definition configure ::
  "Hardware \<Rightarrow> CameraConfig \<Rightarrow> 32 word \<Rightarrow> CameraImpl \<Rightarrow> error + CameraConfig \<times> CameraImpl" where
  "configure hw cfg level cam =
     (case configure_rgb hw cfg level cam of
        Inl e \<Rightarrow> Inl e
      | Inr cam1 \<Rightarrow>
          (case configure_depth hw cfg level cam1 of
             Inl e \<Rightarrow> Inl e
           | Inr (cfg2, cam2) \<Rightarrow>
               (case configure_ir hw cfg2 level cam2 of
                  Inl e \<Rightarrow> Inl e
                | Inr cam3 \<Rightarrow>
                    Inr (cfg2,
                         cam3\<lparr>device := (device cam3)\<lparr>depthColorSyncEnabled := True\<rparr>,
                              effects := effects cam3 @ [SetDepthColorSyncEnabled True]\<rparr>))))"

text \<open>\<^verbatim>\<open>CameraImpl::createVideoMode\<close>, lines 531-536.\<close>

definition createVideoMode :: "int \<Rightarrow> int \<Rightarrow> int \<Rightarrow> PixelFormat \<Rightarrow> VideoMode" where
  "createVideoMode x y f format = \<lparr>resolutionX = x, resolutionY = y, fps = f, pixelFormat = format\<rparr>"

section \<open>Reading the trace\<close>

text \<open>
  A recovery trial is one destroy, recreate and start attempt; each trial creates the
  stream once, so the trials in a trace are its \<open>Create\<close> calls.
\<close>

definition recovery_trials :: "Event list \<Rightarrow> nat" where
  "recovery_trials tr =
     length (filter (\<lambda>e. case e of Ctl n (Create t rc) \<Rightarrow> True | _ \<Rightarrow> False) tr)"

text \<open>
  The status of the last \<^verbatim>\<open>start\<close> call in a trace, if there is one, and whether
  that last start attempt, if any, succeeded.
\<close>

fun last_start :: "Event list \<Rightarrow> Status option" where
  "last_start [] = None"
| "last_start (e # es) =
     (case last_start es of
        Some rc \<Rightarrow> Some rc
      | None \<Rightarrow> (case e of Ctl n (Start rc) \<Rightarrow> Some rc | _ \<Rightarrow> None))"

definition last_start_succeeded :: "Event list \<Rightarrow> bool" where
  "last_start_succeeded tr = (case last_start tr of None \<Rightarrow> True | Some rc \<Rightarrow> rc = STATUS_OK)"

text \<open>
  A visit of the camera to the controller named \<open>n\<close> shows in the trace as
  \<open>BeginConfigure\<close>, then events of that controller, then \<open>EndConfigure\<close>, then more
  events of that controller, with no second marker among them. With \<open>reg\<close> set, a call
  that sets the image registration mode may stand among them, as in the depth block.
  \<open>steps\<close> says that a trace grew by such events only.
\<close>

definition quiet_event :: "bool \<Rightarrow> string \<Rightarrow> Event \<Rightarrow> bool" where
  "quiet_event reg n e =
     (case e of
        Ctl n' a \<Rightarrow> n' = n \<and> a \<noteq> BeginConfigure \<and> a \<noteq> EndConfigure
      | SetImageRegistrationMode m \<Rightarrow> reg
      | SetDepthColorSyncEnabled b \<Rightarrow> False)"

definition visit :: "bool \<Rightarrow> string \<Rightarrow> Event list \<Rightarrow> bool" where
  "visit reg n evs =
     (case evs of
        [] \<Rightarrow> False
      | e # rest \<Rightarrow>
          e = Ctl n BeginConfigure \<and>
          (let pre = takeWhile (\<lambda>e. e \<noteq> Ctl n EndConfigure) rest;
               post = drop (Suc (length pre)) rest
           in length pre < length rest \<and>
              list_all (quiet_event reg n) pre \<and>
              list_all (quiet_event reg n) post))"

definition visit_of :: "bool \<Rightarrow> 'a SensorStreamManager_scheme Sensor \<Rightarrow> Event list \<Rightarrow> bool" where
  "visit_of reg sensor evs =
     (case sensor of
        SensorStreamManagerBase \<Rightarrow> evs = []
      | Manager m \<Rightarrow> visit reg (name m) evs)"

definition steps :: "bool \<Rightarrow> string \<Rightarrow> Event list \<Rightarrow> Event list \<Rightarrow> bool" where
  "steps reg n tr tr' = (\<exists>evs. list_all (quiet_event reg n) evs \<and> tr' = tr @ evs)"

text \<open>
  The asserts of \<^verbatim>\<open>configure\<close> (lines 572, 599, 637) hold for a request: every
  resolution that the mask flags, for a sensor that is there, has its key in the
  catalog.
\<close>

definition asserts_hold :: "CameraConfig \<Rightarrow> 32 word \<Rightarrow> CameraImpl \<Rightarrow> bool" where
  "asserts_hold cfg level cam =
     ((rgb_sensor cam \<noteq> SensorStreamManagerBase \<and> level AND 8 \<noteq> 0
         \<longrightarrow> resolutions cam (rgb_resolution cfg) \<noteq> None) \<and>
      (depth_sensor cam \<noteq> SensorStreamManagerBase \<and> level AND 16 \<noteq> 0
         \<longrightarrow> resolutions cam (depth_resolution cfg) \<noteq> None) \<and>
      (ir_sensor cam \<noteq> SensorStreamManagerBase \<and> level AND 32 \<noteq> 0
         \<longrightarrow> resolutions cam (ir_resolution cfg) \<noteq> None))"

section \<open>Example inputs\<close>

text \<open>
  A device that answers its first calls from a list and accepts every later call. It
  rejects a video mode atomically, and a new stream comes up in 320x240 at 30 Hz.
\<close>

definition scripted :: "Status list \<Rightarrow> SensorType \<Rightarrow> nat \<Rightarrow> Status" where
  "scripted rs t n = (if n < length rs then rs ! n else STATUS_OK)"

definition example_hardware :: "Status list \<Rightarrow> Hardware" where
  "example_hardware rs =
     \<lparr>answer = scripted rs,
      rejected_mode = (\<lambda>current requested. current),
      created_mode = (\<lambda>t. createVideoMode 320 240 30
         (if t = SENSOR_DEPTH then PIXEL_FORMAT_DEPTH_1_MM else PIXEL_FORMAT_RGB888)),
      registration_supported = False\<rparr>"

text \<open>
  A device whose driver sets the resolution before it looks at the frame rate: a
  request that it rejects for its frame rate leaves the new resolution behind.
\<close>

definition half_applying_hardware :: "Status list \<Rightarrow> Hardware" where
  "half_applying_hardware rs =
     \<lparr>answer = scripted rs,
      rejected_mode = (\<lambda>current requested.
         if fps requested = fps current then current
         else current\<lparr>resolutionX := resolutionX requested, resolutionY := resolutionY requested\<rparr>),
      created_mode = (\<lambda>t. createVideoMode 320 240 30
         (if t = SENSOR_DEPTH then PIXEL_FORMAT_DEPTH_1_MM else PIXEL_FORMAT_RGB888)),
      registration_supported = False\<rparr>"

definition example_device :: "ImageRegistrationMode \<Rightarrow> Device" where
  "example_device r = \<lparr>registrationMode = r, depthColorSyncEnabled = True\<rparr>"

definition example_stream :: "SensorType \<Rightarrow> VideoMode \<Rightarrow> bool \<Rightarrow> VideoStream" where
  "example_stream t m r =
     \<lparr>valid = True, sensorType = t, videoMode = m, started = r, listeners = 1, calls = 0\<rparr>"

text \<open>
  The controllers as the constructor of \<^verbatim>\<open>CameraImpl\<close> names them (lines 446-463),
  running or not (\<open>r\<close>), with \<open>was_running\<close> as given (\<open>w\<close>).
\<close>

definition example_rgb :: "bool \<Rightarrow> bool \<Rightarrow> SensorStreamManager" where
  "example_rgb r w =
     \<lparr>stream = example_stream SENSOR_COLOR (createVideoMode 640 480 30 PIXEL_FORMAT_RGB888) r,
      default_mode = createVideoMode 640 480 30 PIXEL_FORMAT_RGB888,
      name = ''rgb'',
      frame_id = ''camera_rgb_optical_frame'',
      running = r,
      was_running = w,
      trace = []\<rparr>"

definition example_ir :: "bool \<Rightarrow> bool \<Rightarrow> SensorStreamManager" where
  "example_ir r w =
     \<lparr>stream = example_stream SENSOR_IR (createVideoMode 640 480 30 PIXEL_FORMAT_RGB888) r,
      default_mode = createVideoMode 640 480 30 PIXEL_FORMAT_RGB888,
      name = ''ir'',
      frame_id = ''camera_depth_optical_frame'',
      running = r,
      was_running = w,
      trace = []\<rparr>"

definition example_depth :: "bool \<Rightarrow> bool \<Rightarrow> PixelFormat \<Rightarrow> DepthSensorStreamManager" where
  "example_depth r w format =
     \<lparr>stream = example_stream SENSOR_DEPTH (createVideoMode 640 480 30 format) r,
      default_mode = createVideoMode 640 480 30 PIXEL_FORMAT_DEPTH_1_MM,
      name = ''depth'',
      frame_id = ''camera_depth_optical_frame'',
      running = r,
      was_running = w,
      trace = [],
      active_publisher = None,
      rgb_frame_id = ''camera_rgb_optical_frame'',
      depth_frame_id = ''camera_depth_optical_frame''\<rparr>"

text \<open>A subscriber count: one client on the disparity topic, none elsewhere.\<close>

definition one_disparity_client :: "CameraPublisher \<Rightarrow> 32 word" where
  "one_disparity_client p = (if p = disparity_publisher then 1 else 0)"


text \<open>A frame of the given size and pixel format, with no pixel data.\<close>

definition example_frame :: "int \<Rightarrow> int \<Rightarrow> PixelFormat \<Rightarrow> VideoFrameRef" where
  "example_frame w h format =
     \<lparr>frame_width = w, frame_height = h, frame_strideInBytes = 2 * w,
      frame_videoMode = createVideoMode w h 30 format, frame_data = []\<rparr>"

text \<open>
  A catalog of three modes, a request, a camera with a colour and a depth sensor, both
  running, and a camera with a colour sensor only.
\<close>

definition example_resolutions :: "int \<rightharpoonup> VideoMode" where
  "example_resolutions =
     [1 \<mapsto> createVideoMode 640 480 30 PIXEL_FORMAT_RGB888,
      2 \<mapsto> createVideoMode 640 480 30 PIXEL_FORMAT_DEPTH_1_MM,
      3 \<mapsto> createVideoMode 640 480 30 PIXEL_FORMAT_SHIFT_9_2]"

definition example_config :: "bool \<Rightarrow> CameraConfig" where
  "example_config r =
     \<lparr>rgb_resolution = 1, depth_resolution = 3, ir_resolution = 7,
      auto_exposure = True, auto_white_balance = True, mirror = False,
      depth_registration = r\<rparr>"

definition example_camera :: CameraImpl where
  "example_camera =
     \<lparr>rgb_sensor = Manager (example_rgb True False),
      depth_sensor = Manager (example_depth True False PIXEL_FORMAT_DEPTH_1_MM),
      ir_sensor = SensorStreamManagerBase,
      resolutions = example_resolutions,
      device = example_device IMAGE_REGISTRATION_OFF,
      effects = []\<rparr>"

definition colour_only_camera :: CameraImpl where
  "colour_only_camera =
     \<lparr>rgb_sensor = Manager (example_rgb False False),
      depth_sensor = SensorStreamManagerBase,
      ir_sensor = SensorStreamManagerBase,
      resolutions = example_resolutions,
      device = example_device IMAGE_REGISTRATION_OFF,
      effects = []\<rparr>"

section \<open>The operations as record updates\<close>

lemma sdk_start_eq:
  "sdk_start hw st =
     (answer hw (sensorType st) (calls st),
      st\<lparr>started := (started st \<or> answer hw (sensorType st) (calls st) = STATUS_OK),
         calls := Suc (calls st)\<rparr>)"
  by (simp add: sdk_start_def Let_def)

lemma sdk_create_eq:
  "sdk_create hw t st =
     (answer hw t (calls st),
      if answer hw t (calls st) = STATUS_OK
      then st\<lparr>valid := True, sensorType := t, videoMode := created_mode hw t,
              started := False, listeners := 0, calls := Suc (calls st)\<rparr>
      else st\<lparr>calls := Suc (calls st)\<rparr>)"
  by (simp add: sdk_create_def Let_def)

lemma sdk_setVideoMode_eq:
  "sdk_setVideoMode hw m st =
     (answer hw (sensorType st) (calls st),
      st\<lparr>videoMode := (if answer hw (sensorType st) (calls st) = STATUS_OK then m
                         else rejected_mode hw (videoMode st) m),
         calls := Suc (calls st)\<rparr>)"
  by (simp add: sdk_setVideoMode_def Let_def)

lemma stream_start_eq:
  "stream_start hw s =
     (answer hw (sensorType (stream s)) (calls (stream s)),
      s\<lparr>stream := snd (sdk_start hw (stream s)),
        trace := trace s @
          [Ctl (name s) (Start (answer hw (sensorType (stream s)) (calls (stream s))))]\<rparr>)"
  by (simp add: stream_start_def emit_def sdk_start_eq)

lemma stream_stop_eq:
  "stream_stop s = s\<lparr>stream := sdk_stop (stream s), trace := trace s @ [Ctl (name s) Stop]\<rparr>"
  by (simp add: stream_stop_def emit_def)

lemma stream_destroy_eq:
  "stream_destroy s =
     s\<lparr>stream := sdk_destroy (stream s), trace := trace s @ [Ctl (name s) Destroy]\<rparr>"
  by (simp add: stream_destroy_def emit_def)

lemma stream_create_eq:
  "stream_create hw t s =
     (answer hw t (calls (stream s)),
      s\<lparr>stream := snd (sdk_create hw t (stream s)),
        trace := trace s @ [Ctl (name s) (Create t (answer hw t (calls (stream s))))]\<rparr>)"
  by (simp add: stream_create_def emit_def sdk_create_eq)

lemma stream_addNewFrameListener_eq:
  "stream_addNewFrameListener s =
     s\<lparr>stream := sdk_addNewFrameListener (stream s),
       trace := trace s @ [Ctl (name s) AddNewFrameListener]\<rparr>"
  by (simp add: stream_addNewFrameListener_def emit_def)

lemma stream_removeNewFrameListener_eq:
  "stream_removeNewFrameListener s =
     s\<lparr>stream := sdk_removeNewFrameListener (stream s),
       trace := trace s @ [Ctl (name s) RemoveNewFrameListener]\<rparr>"
  by (simp add: stream_removeNewFrameListener_def emit_def)

lemma stream_setVideoMode_eq:
  "stream_setVideoMode hw m s =
     (answer hw (sensorType (stream s)) (calls (stream s)),
      s\<lparr>stream := snd (sdk_setVideoMode hw m (stream s)),
        trace := trace s @
          [Ctl (name s) (SetVideoMode m (answer hw (sensorType (stream s)) (calls (stream s))))]\<rparr>)"
  by (simp add: stream_setVideoMode_def emit_def sdk_setVideoMode_eq)

lemmas stream_eqs =
  stream_start_eq stream_stop_eq stream_destroy_eq stream_create_eq
  stream_addNewFrameListener_eq stream_removeNewFrameListener_eq stream_setVideoMode_eq

lemmas sdk_eqs =
  sdk_start_eq sdk_create_eq sdk_setVideoMode_eq sdk_stop_def sdk_destroy_def
  sdk_addNewFrameListener_def sdk_removeNewFrameListener_def

lemmas example_defs =
  createVideoMode_def scripted_def example_hardware_def half_applying_hardware_def
  example_device_def example_stream_def example_rgb_def example_ir_def example_depth_def

lemma beginConfigure_eq:
  "beginConfigure s =
     (True,
      s\<lparr>stream := (stream s)\<lparr>started := (started (stream s) \<and> \<not> running s)\<rparr>,
        running := False,
        was_running := running s,
        trace := trace s @
          Ctl (name s) BeginConfigure # (if running s then [Ctl (name s) Stop] else [])\<rparr>)"
  apply (simp add: beginConfigure_def Let_def)
  apply (simp add: stream_stop_eq emit_def sdk_stop_def)
  done

subsection \<open>The recovery loop\<close>

lemma recovery_loop_stop:
  "\<not> (i < mt \<and> rc \<noteq> STATUS_OK) \<Longrightarrow> recovery_loop hw t mt i rc s = (rc, s)"
  by (subst recovery_loop.simps) auto

lemma recovery_loop_step:
  "i < mt \<Longrightarrow> rc \<noteq> STATUS_OK \<Longrightarrow>
   recovery_loop hw t mt i rc s =
     recovery_loop hw t mt (i + 1)
       (fst (recovery_trial hw t i s)) (snd (recovery_trial hw t i s))"
  by (subst recovery_loop.simps) simp

lemma recovery_loop_one:
  "rc \<noteq> STATUS_OK \<Longrightarrow> recovery_loop hw t 1 0 rc s = recovery_trial hw t 0 s"
  by (simp add: recovery_loop_step recovery_loop_stop)

lemma recovery_trial_eq:
  "recovery_trial hw t i s =
     (answer hw t (Suc (calls (stream s))),
      s\<lparr>stream :=
           (if answer hw t (calls (stream s)) = STATUS_OK
            then (stream s)\<lparr>valid := True, sensorType := t, videoMode := created_mode hw t\<rparr>
            else (stream s)\<lparr>valid := False\<rparr>)
           \<lparr>started := (answer hw t (Suc (calls (stream s))) = STATUS_OK),
            listeners := 1, calls := calls (stream s) + 2\<rparr>,
         trace := trace s @ map (Ctl (name s))
           ([Sleep_ms 100, RemoveNewFrameListener, Destroy,
             Create t (answer hw t (calls (stream s))), AddNewFrameListener,
             Start (answer hw t (Suc (calls (stream s))))] @
            (if answer hw t (Suc (calls (stream s))) \<noteq> STATUS_OK
             then [Log WARN (Recovery_trial_failed i)] else []))\<rparr>)"
  if "sensorType (stream s) = t"
  using that
  apply (simp add: recovery_trial_def Let_def)
  apply (simp add: stream_eqs emit_def)
  apply (simp add: sdk_eqs)
  done

lemma recovery_trial_trace:
  "trace (snd (recovery_trial hw t i s)) =
     trace s @ map (Ctl (name s))
       ([Sleep_ms 100, RemoveNewFrameListener, Destroy,
         Create t (answer hw t (calls (stream s))), AddNewFrameListener,
         Start (fst (recovery_trial hw t i s))] @
        (if fst (recovery_trial hw t i s) \<noteq> STATUS_OK
         then [Log WARN (Recovery_trial_failed i)] else []))"
  apply (simp add: recovery_trial_def Let_def)
  apply (simp add: stream_eqs emit_def)
  apply (simp add: sdk_eqs)
  done

lemma recovery_trials_simps:
  "recovery_trials [] = 0"
  "recovery_trials (tr @ tr') = recovery_trials tr + recovery_trials tr'"
  "recovery_trials (Ctl n a # tr) =
     (case a of Create t rc \<Rightarrow> 1 | _ \<Rightarrow> 0) + recovery_trials tr"
  by (simp_all add: recovery_trials_def split: Action.split)

lemma recovery_trial_trials:
  "recovery_trials (trace (snd (recovery_trial hw t i s))) = Suc (recovery_trials (trace s))"
  by (simp add: recovery_trial_trace recovery_trials_def)

text \<open>Whatever the bound, the loop runs at most \<open>max_trials - trials\<close> more trials.\<close>

lemma recovery_loop_trials:
  "recovery_trials (trace (snd (recovery_loop hw t mt i rc s)))
     \<le> recovery_trials (trace s) + nat (mt - i)"
proof (induction hw t mt i rc s rule: recovery_loop.induct)
  case (1 hw t mt i rc s)
  show ?case
  proof (cases "i < mt \<and> rc \<noteq> STATUS_OK")
    case True
    then have "recovery_trials (trace (snd (recovery_loop hw t mt i rc s)))
        \<le> recovery_trials (trace (snd (recovery_trial hw t i s))) + nat (mt - (i + 1))"
      using "1.IH" by (simp add: recovery_loop_step)
    also have "\<dots> = recovery_trials (trace s) + Suc (nat (mt - (i + 1)))"
      by (simp add: recovery_trial_trials)
    also have "Suc (nat (mt - (i + 1))) = nat (mt - i)"
      using True by linarith
    finally show ?thesis .
  next
    case False
    then show ?thesis by (simp add: recovery_loop_stop)
  qed
qed

lemma endConfigure_with_trials:
  "recovery_trials (trace (endConfigure_with mt hw s)) \<le> recovery_trials (trace s) + nat mt"
  apply (simp add: endConfigure_with_def Let_def split_def)
  apply (simp add: stream_start_eq sdk_start_eq emit_def recovery_trials_simps)
  apply (intro impI)
  apply (rule order_trans [OF recovery_loop_trials])
  apply (simp add: recovery_trials_simps)
  done

subsection \<open>The three ways through endConfigure\<close>

lemma endConfigure_idle:
  "\<not> was_running s \<Longrightarrow>
   endConfigure hw s = s\<lparr>trace := trace s @ [Ctl (name s) EndConfigure]\<rparr>"
  by (simp add: endConfigure_def endConfigure_with_def emit_def Let_def)

lemma endConfigure_restarted:
  assumes "was_running s"
    and "answer hw (sensorType (stream s)) (calls (stream s)) = STATUS_OK"
  shows "endConfigure hw s =
     s\<lparr>stream := (stream s)\<lparr>started := True, calls := Suc (calls (stream s))\<rparr>,
       running := True,
       trace := trace s @ map (Ctl (name s)) [EndConfigure, Start STATUS_OK]\<rparr>"
  using assms
  apply (simp add: endConfigure_def endConfigure_with_def Let_def)
  apply (simp add: stream_eqs emit_def)
  apply (simp add: sdk_eqs)
  done

lemma endConfigure_recovering:
  assumes "was_running s"
    and "answer hw (sensorType (stream s)) (calls (stream s)) \<noteq> STATUS_OK"
  shows "endConfigure hw s =
     s\<lparr>stream :=
          (if answer hw (sensorType (stream s)) (calls (stream s) + 1) = STATUS_OK
           then (stream s)\<lparr>valid := True, videoMode := created_mode hw (sensorType (stream s))\<rparr>
           else (stream s)\<lparr>valid := False\<rparr>)
          \<lparr>started := (answer hw (sensorType (stream s)) (calls (stream s) + 2) = STATUS_OK),
           listeners := 1, calls := calls (stream s) + 3\<rparr>,
       running := (running s \<or> answer hw (sensorType (stream s)) (calls (stream s) + 2) = STATUS_OK),
       trace := trace s @ map (Ctl (name s))
         ([EndConfigure, Start (answer hw (sensorType (stream s)) (calls (stream s))),
           Log WARN Failed_to_restart_stream_after_configuration,
           Sleep_ms 100, RemoveNewFrameListener, Destroy,
           Create (sensorType (stream s)) (answer hw (sensorType (stream s)) (calls (stream s) + 1)),
           AddNewFrameListener,
           Start (answer hw (sensorType (stream s)) (calls (stream s) + 2))] @
          (if answer hw (sensorType (stream s)) (calls (stream s) + 2) = STATUS_OK
           then [Log INFO Recovered_stream]
           else [Log WARN (Recovery_trial_failed 0),
                 Log ERROR Failed_to_recover_stream_Restart_required]))\<rparr>"
  using assms
  apply (simp add: endConfigure_def endConfigure_with_def max_trials_def Let_def)
  apply (simp add: stream_start_eq sdk_start_eq emit_def)
  apply (simp add: recovery_loop_one recovery_trial_eq emit_def)
  done

lemma endConfigure_after_begin:
  "(let t = sensorType (stream s); k = calls (stream s);
        s' = endConfigure hw (snd (beginConfigure s))
    in running s' =
         (running s \<and> (answer hw t k = STATUS_OK \<or> answer hw t (k + 2) = STATUS_OK)) \<and>
       (\<not> running s \<longrightarrow> stream s' = stream s) \<and>
       (running s \<longrightarrow> started (stream s') = running s'))"
proof (cases "running s")
  case False
  then show ?thesis
    by (simp add: Let_def beginConfigure_eq endConfigure_idle)
next
  case True
  show ?thesis
  proof (cases "answer hw (sensorType (stream s)) (calls (stream s)) = STATUS_OK")
    case ok: True
    with True show ?thesis
      by (simp add: Let_def beginConfigure_eq endConfigure_restarted)
  next
    case failed: False
    with True show ?thesis
      by (simp add: Let_def beginConfigure_eq endConfigure_recovering)
  qed
qed

subsection \<open>The depth controller\<close>

lemma updateActivePublisher_eq:
  "updateActivePublisher dev s =
     s\<lparr>frame_id := (if registrationMode dev = IMAGE_REGISTRATION_DEPTH_TO_COLOR
                     then rgb_frame_id s else depth_frame_id s),
       active_publisher :=
         (if pixelFormat (videoMode (stream s)) = PIXEL_FORMAT_DEPTH_1_MM
          then Some (if registrationMode dev = IMAGE_REGISTRATION_DEPTH_TO_COLOR
                     then depth_registered_publisher else publisher)
          else if pixelFormat (videoMode (stream s)) = PIXEL_FORMAT_SHIFT_9_2
          then Some (if registrationMode dev = IMAGE_REGISTRATION_DEPTH_TO_COLOR
                     then disparity_registered_publisher else disparity_publisher)
          else None)\<rparr>"
  by (simp add: updateActivePublisher_def)

lemma depth_endConfigure_sel:
  "running (depth_endConfigure hw dev s) = running (endConfigure hw s)"
  "stream (depth_endConfigure hw dev s) = stream (endConfigure hw s)"
  "trace (depth_endConfigure hw dev s) = trace (endConfigure hw s)"
  "name (depth_endConfigure hw dev s) = name (endConfigure hw s)"
  by (simp_all add: depth_endConfigure_def Let_def updateActivePublisher_eq)

subsection \<open>Doubles\<close>

lemma pow2_powi: "pow2 e = 2 powi e"
  by (simp add: pow2_def power_int_def power_inverse [symmetric] inverse_eq_divide
      flip: power_one_over)

lemma pow2_pos: "0 < pow2 e"
  by (simp add: pow2_powi zero_less_power_int)

lemma pow2_add: "pow2 (a + b) = pow2 a * pow2 b"
  by (simp add: pow2_powi power_int_add)

lemma pow2_nat: "0 \<le> e \<Longrightarrow> pow2 e = of_int (2 ^ nat e)"
  by (simp add: pow2_def)

lemma pow2_less: "pow2 a < pow2 b \<Longrightarrow> a < b"
proof (rule ccontr)
  assume lt: "pow2 a < pow2 b" and "\<not> a < b"
  then have "b \<le> a" by simp
  then have "pow2 b \<le> pow2 a"
    unfolding pow2_powi by (intro power_int_increasing) simp_all
  with lt show False by simp
qed

lemma bit_length_bounds:
  "0 < n \<Longrightarrow> 2 ^ (bit_length n - 1) \<le> n \<and> n < 2 ^ bit_length n"
proof (induction n rule: bit_length.induct)
  case (1 n)
  show ?case
  proof (cases "n div 2 = 0")
    case True
    with "1.prems" have "n = 1" by linarith
    then show ?thesis
      by (simp add: bit_length.simps)
  next
    case False
    then have pos: "0 < n div 2" by simp
    with "1.IH" "1.prems" have ih:
      "2 ^ (bit_length (n div 2) - 1) \<le> n div 2" "n div 2 < 2 ^ bit_length (n div 2)"
      by simp_all
    have bl: "bit_length n = Suc (bit_length (n div 2))"
      using "1.prems" by (subst bit_length.simps) simp
    have blpos: "0 < bit_length (n div 2)"
      using pos by (subst bit_length.simps) simp
    then have "2 ^ bit_length (n div 2) = (2::nat) * 2 ^ (bit_length (n div 2) - 1)"
      by (cases "bit_length (n div 2)") simp_all
    with ih show ?thesis
      unfolding bl by (simp; linarith)
  qed
qed

lemma ilog2_lower:
  assumes "0 < x"
  shows "pow2 (ilog2 x) \<le> x"
proof (cases "1 \<le> x")
  case True
  define n where "n = nat \<lfloor>x\<rfloor>"
  have "1 \<le> \<lfloor>x\<rfloor>"
    using True by simp
  then have npos: "0 < n"
    by (simp add: n_def)
  have nx: "of_nat n \<le> x"
    using \<open>1 \<le> \<lfloor>x\<rfloor>\<close> by (simp add: n_def of_nat_nat)
  have blpos: "0 < bit_length n"
    using npos by (subst bit_length.simps) simp
  have "pow2 (ilog2 x) = 2 ^ (bit_length n - 1)"
    using True blpos by (simp add: ilog2_def n_def [symmetric] pow2_def nat_diff_distrib)
  also have "\<dots> = of_nat (2 ^ (bit_length n - 1))"
    by simp
  also have "\<dots> \<le> of_nat n"
    using bit_length_bounds [OF npos] by (simp only: of_nat_le_iff)
  finally show ?thesis
    using nx by simp
next
  case False
  define c where "c = \<lceil>1 / x\<rceil>"
  define n where "n = nat (c - 1)"
  have "1 < 1 / x"
    using False assms by simp
  then have c2: "2 \<le> c"
    unfolding c_def by linarith
  then have npos: "0 < n"
    by (simp add: n_def)
  have cn: "c = int n + 1"
    using c2 by (simp add: n_def)
  have "1 / x \<le> of_int c"
    by (simp add: c_def)
  also have "of_int c = (of_nat (n + 1) :: rat)"
    by (simp add: cn)
  also have "\<dots> \<le> of_nat (2 ^ bit_length n)"
    using bit_length_bounds [OF npos] by (simp only: of_nat_le_iff) simp
  finally have "1 / x \<le> 2 ^ bit_length n"
    by simp
  then have "1 / 2 ^ bit_length n \<le> x"
    using assms by (simp add: field_simps)
  moreover have "pow2 (ilog2 x) = 1 / 2 ^ bit_length n"
    using False by (simp add: ilog2_def c_def [symmetric] n_def [symmetric] pow2_def)
  ultimately show ?thesis
    by simp
qed

lemma round_ties_even_of_int: "round_ties_even (of_int j) = j"
  by (simp add: round_ties_even_def)

lemma binary64_exact:
  assumes "\<bar>m\<bar> < 2 ^ 53" and "- 1074 \<le> k"
  shows "binary64 (of_int m * pow2 k) = of_int m * pow2 k"
proof (cases "m = 0")
  case True
  then show ?thesis
    by (simp add: binary64_def)
next
  case False
  define x :: rat where "x = of_int m * pow2 k"
  define a where "a = \<bar>x\<bar>"
  define E where "E = max (ilog2 a) (- 1022) - 52"
  have a_eq: "a = of_int \<bar>m\<bar> * pow2 k"
    using pow2_pos [of k] by (simp add: a_def x_def abs_mult)
  have apos: "0 < a"
    using False pow2_pos [of k] by (simp add: a_eq)
  have "a < 2 ^ 53 * pow2 k"
  proof -
    have "(of_int \<bar>m\<bar> :: rat) < of_int (2 ^ 53)"
      using assms(1) by (simp only: of_int_less_iff)
    then show ?thesis
      using pow2_pos [of k] by (simp add: a_eq)
  qed
  also have "\<dots> = pow2 (53 + k)"
  proof -
    have "pow2 53 = 2 ^ 53"
      by (simp add: pow2_def)
    then show ?thesis
      by (simp only: pow2_add)
  qed
  finally have "pow2 (ilog2 a) < pow2 (53 + k)"
    using ilog2_lower [OF apos] by simp
  then have "ilog2 a < 53 + k"
    by (rule pow2_less)
  then have Ek: "E \<le> k"
    using assms(2) by (simp add: E_def)
  define d where "d = nat (k - E)"
  have "pow2 k = pow2 E * pow2 (k - E)"
    by (simp flip: pow2_add)
  also have "pow2 (k - E) = of_int (2 ^ d)"
    using Ek by (simp add: pow2_def d_def)
  finally have k_eq: "pow2 k = pow2 E * of_int (2 ^ d)" .
  have "a / pow2 E = of_int (\<bar>m\<bar> * 2 ^ d)"
    using pow2_pos [of E] by (simp add: a_eq k_eq)
  then have r: "of_int (round_ties_even (a / pow2 E)) * pow2 E = a"
    using pow2_pos [of E] by (simp only: round_ties_even_of_int) (simp add: a_eq k_eq)
  have "x \<noteq> 0"
    using apos by (simp add: a_def)
  then have "binary64 x = sgn x * of_int (round_ties_even (a / pow2 E)) * pow2 E"
    by (simp add: binary64_def Let_def a_def E_def)
  also have "\<dots> = sgn x * a"
    using r by (simp add: mult.assoc)
  also have "\<dots> = x"
    by (simp add: a_def sgn_mult_abs)
  finally show ?thesis
    by (simp add: x_def)
qed

lemma binary64_of_int: "\<bar>m\<bar> < 2 ^ 53 \<Longrightarrow> binary64 (of_int m) = of_int m"
  using binary64_exact [of m 0] by (simp add: pow2_def)

lemma binary64_half: "\<bar>m\<bar> < 2 ^ 53 \<Longrightarrow> binary64 (of_int m / 2) = of_int m / 2"
  using binary64_exact [of m "- 1"] by (simp add: pow2_def)

subsection \<open>Mode changes\<close>

lemma tryConfigureVideoMode_eq:
  "tryConfigureVideoMode hw m s =
     (let t = sensorType (stream s); k = calls (stream s); old = videoMode (stream s)
      in if answer hw t k = STATUS_OK
         then (True,
               s\<lparr>stream := (stream s)\<lparr>videoMode := m, calls := Suc k\<rparr>,
                 trace := trace s @ [Ctl (name s) (SetVideoMode m STATUS_OK)]\<rparr>)
         else (False,
               s\<lparr>stream := (stream s)
                    \<lparr>videoMode := (if answer hw t (Suc k) = STATUS_OK then old
                                   else rejected_mode hw (rejected_mode hw old m) old),
                     calls := k + 2\<rparr>,
                 trace := trace s @ map (Ctl (name s))
                   ([SetVideoMode m (answer hw t k), SetVideoMode old (answer hw t (Suc k))] @
                    (if answer hw t (Suc k) \<noteq> STATUS_OK
                     then [Log ERROR Failed_to_recover_old_video_mode] else []))\<rparr>))"
  apply (simp add: tryConfigureVideoMode_def Let_def)
  apply (simp add: stream_setVideoMode_eq emit_def)
  apply (simp add: sdk_setVideoMode_eq)
  done

subsection \<open>Subscription changes\<close>

lemma last_start_snoc_Start: "last_start (tr @ [Ctl n (Start rc)]) = Some rc"
  by (induction tr) simp_all

lemma last_start_succeeded_snoc_Start:
  "last_start_succeeded (tr @ [Ctl n (Start rc)]) = (rc = STATUS_OK)"
  by (simp add: last_start_succeeded_def last_start_snoc_Start)

lemma last_start_snoc_Stop: "last_start (tr @ [Ctl n Stop]) = last_start tr"
  by (induction tr) simp_all

lemma onSubscriptionChanged_eq:
  "onSubscriptionChanged hw n s =
     (if 0 < n
      then (if running s then s
            else s\<lparr>stream := (stream s)
                     \<lparr>started := (started (stream s) \<or>
                                   answer hw (sensorType (stream s)) (calls (stream s)) = STATUS_OK),
                      calls := Suc (calls (stream s))\<rparr>,
                   running := (answer hw (sensorType (stream s)) (calls (stream s)) = STATUS_OK),
                   trace := trace s @
                     [Ctl (name s) (Start (answer hw (sensorType (stream s)) (calls (stream s))))]\<rparr>)
      else s\<lparr>stream := (stream s)\<lparr>started := False\<rparr>,
             running := False,
             trace := trace s @ [Ctl (name s) Stop]\<rparr>)"
  apply (simp add: onSubscriptionChanged_def Let_def)
  apply (simp add: stream_start_eq stream_stop_eq)
  apply (simp add: sdk_eqs)
  done

lemma depth_onSubscriptionChanged_sel:
  "running (depth_onSubscriptionChanged hw dev subs s) =
     (if running s then 0 < all_clients subs
      else 0 < all_clients subs \<and>
           answer hw (sensorType (stream s)) (calls (stream s)) = STATUS_OK)"
  "trace (depth_onSubscriptionChanged hw dev subs s) =
     (if \<not> running s \<and> 0 < all_clients subs
      then trace s @ [Ctl (name s) (Start (answer hw (sensorType (stream s)) (calls (stream s))))]
      else if running s \<and> all_clients subs = 0 then trace s @ [Ctl (name s) Stop]
      else trace s)"
  "started (stream (depth_onSubscriptionChanged hw dev subs s)) =
     (if \<not> running s \<and> 0 < all_clients subs
      then started (stream s) \<or> answer hw (sensorType (stream s)) (calls (stream s)) = STATUS_OK
      else if running s \<and> all_clients subs = 0 then False
      else started (stream s))"
    apply (simp_all add: depth_onSubscriptionChanged_def Let_def)
    apply (simp_all add: stream_start_eq stream_stop_eq updateActivePublisher_eq)
    apply (simp_all add: sdk_eqs word_neq_0_conv)
  apply blast
  done

lemma onSubscriptionChanged_tracks:
  assumes "last_start_succeeded (trace (onSubscriptionChanged hw n s))"
  shows "running (onSubscriptionChanged hw n s) = (0 < n)"
  using assms
  by (cases "0 < n"; cases "running s")
    (simp_all add: onSubscriptionChanged_eq last_start_succeeded_snoc_Start)

lemma depth_onSubscriptionChanged_tracks:
  assumes "last_start_succeeded (trace (depth_onSubscriptionChanged hw dev subs s))"
  shows "running (depth_onSubscriptionChanged hw dev subs s) = (0 < all_clients subs)"
proof (cases "running s")
  case True
  then show ?thesis
    by (simp add: depth_onSubscriptionChanged_sel(1))
next
  case False
  show ?thesis
  proof (cases "0 < all_clients subs")
    case interested: True
    with False have "trace (depth_onSubscriptionChanged hw dev subs s) =
        trace s @ [Ctl (name s) (Start (answer hw (sensorType (stream s)) (calls (stream s))))]"
      by (simp add: depth_onSubscriptionChanged_sel(2))
    with assms have "answer hw (sensorType (stream s)) (calls (stream s)) = STATUS_OK"
      by (simp add: last_start_succeeded_snoc_Start)
    with False interested show ?thesis
      by (simp add: depth_onSubscriptionChanged_sel(1))
  next
    case idle: False
    with False show ?thesis
      by (simp add: depth_onSubscriptionChanged_sel(1))
  qed
qed

lemma onSubscriptionChanged_in_step:
  "started (stream s) = running s \<Longrightarrow>
   started (stream (onSubscriptionChanged hw n s)) = running (onSubscriptionChanged hw n s)"
  by (simp add: onSubscriptionChanged_eq)

lemma depth_onSubscriptionChanged_in_step:
  "started (stream s) = running s \<Longrightarrow>
   started (stream (depth_onSubscriptionChanged hw dev subs s)) =
     running (depth_onSubscriptionChanged hw dev subs s)"
  by (cases "running s"; cases "0 < all_clients subs")
    (simp_all add: depth_onSubscriptionChanged_sel word_neq_0_conv)

lemma notifications_in_step:
  "started (stream s) = running s \<Longrightarrow>
   started (stream (foldl (\<lambda>s n. onSubscriptionChanged hw n s) s ns)) =
     running (foldl (\<lambda>s n. onSubscriptionChanged hw n s) s ns)"
  by (induction ns arbitrary: s) (simp_all add: onSubscriptionChanged_in_step)

lemma depth_notifications_in_step:
  "started (stream s) = running s \<Longrightarrow>
   started (stream (foldl (\<lambda>s c. depth_onSubscriptionChanged hw (fst c) (snd c) s) s cs)) =
     running (foldl (\<lambda>s c. depth_onSubscriptionChanged hw (fst c) (snd c) s) s cs)"
  by (induction cs arbitrary: s) (simp_all add: depth_onSubscriptionChanged_in_step)

lemma unat_ucast_32_64: "unat (ucast (w :: 32 word) :: 64 word) = unat w"
proof -
  have "unat w < 2 ^ 32"
    using unsigned_less [of w] by simp
  then have "unat w < 2 ^ 64"
    by simp
  then show ?thesis
    by (simp add: unsigned_ucast_eq take_bit_nat_eq_self)
qed

lemma unat_add_32:
  "unat a < 2 ^ 31 \<Longrightarrow> unat b < 2 ^ 31 \<Longrightarrow> unat (a + b) = unat a + unat b"
  for a b :: "32 word"
proof -
  assume "unat a < 2 ^ 31" and "unat b < 2 ^ 31"
  then have "unat a + unat b < 2 ^ LENGTH(32)"
    by simp
  then show ?thesis
    by (simp only: unat_add_lem)
qed

lemma unat_add_64:
  "unat a < 2 ^ 32 \<Longrightarrow> unat b < 2 ^ 32 \<Longrightarrow> unat (a + b) = unat a + unat b"
  for a b :: "64 word"
proof -
  assume "unat a < 2 ^ 32" and "unat b < 2 ^ 32"
  then have "unat a + unat b < 2 ^ LENGTH(64)"
    by simp
  then show ?thesis
    by (simp only: unat_add_lem)
qed

lemma all_clients_exact:
  assumes "\<forall>p. unat (subs p) < 2 ^ 31"
  shows "unat (all_clients subs) =
     unat (subs publisher) + unat (subs depth_registered_publisher) +
     unat (subs disparity_publisher) + unat (subs disparity_registered_publisher)"
proof -
  have small: "unat (subs p) < 2 ^ 31" for p
    using assms by simp
  have a: "unat (subs disparity_publisher + subs disparity_registered_publisher) =
      unat (subs disparity_publisher) + unat (subs disparity_registered_publisher)"
    by (rule unat_add_32) (rule small)+
  have b: "unat (subs publisher + subs depth_registered_publisher) =
      unat (subs publisher) + unat (subs depth_registered_publisher)"
    by (rule unat_add_32) (rule small)+
  have a64: "unat (ucast (subs disparity_publisher + subs disparity_registered_publisher) :: 64 word)
      < 2 ^ 32"
    using unsigned_less [of "subs disparity_publisher + subs disparity_registered_publisher"]
    by (simp add: unat_ucast_32_64)
  have b64: "unat (ucast (subs publisher + subs depth_registered_publisher) :: 64 word) < 2 ^ 32"
    using unsigned_less [of "subs publisher + subs depth_registered_publisher"]
    by (simp add: unat_ucast_32_64)
  have "unat (all_clients subs) =
      unat (ucast (subs disparity_publisher + subs disparity_registered_publisher) :: 64 word) +
      unat (ucast (subs publisher + subs depth_registered_publisher) :: 64 word)"
    unfolding all_clients_def Let_def by (rule unat_add_64 [OF a64 b64])
  then show ?thesis
    by (simp add: unat_ucast_32_64 a b)
qed

subsection \<open>Visits in the trace\<close>

lemma steps_refl: "steps reg n tr tr"
  by (simp add: steps_def)

lemma steps_trans: "steps reg n tr tr' \<Longrightarrow> steps reg n tr' tr'' \<Longrightarrow> steps reg n tr tr''"
  by (auto simp add: steps_def)

lemma steps_snoc:
  "quiet_event reg n e \<Longrightarrow> steps reg n tr (tr @ [e])"
  by (simp add: steps_def)

lemma steps_acts:
  "BeginConfigure \<notin> set acts \<Longrightarrow> EndConfigure \<notin> set acts \<Longrightarrow>
   steps reg n tr (tr @ map (Ctl n) acts)"
  by (auto simp add: steps_def list_all_iff quiet_event_def)

lemma visitI:
  assumes "steps reg n (tr @ [Ctl n BeginConfigure]) tr1"
    and "steps reg n (tr1 @ [Ctl n EndConfigure]) tr2"
  shows "\<exists>evs. tr2 = tr @ evs \<and> visit reg n evs"
proof -
  from assms obtain pre post where
    pre: "list_all (quiet_event reg n) pre" and
    post: "list_all (quiet_event reg n) post" and
    tr1: "tr1 = (tr @ [Ctl n BeginConfigure]) @ pre" and
    tr2: "tr2 = (tr1 @ [Ctl n EndConfigure]) @ post"
    by (auto simp add: steps_def)
  have no_end: "\<forall>e \<in> set pre. e \<noteq> Ctl n EndConfigure"
    using pre by (auto simp add: list_all_iff quiet_event_def)
  then have tw: "takeWhile (\<lambda>e. e \<noteq> Ctl n EndConfigure) (pre @ Ctl n EndConfigure # post) = pre"
    by (simp add: takeWhile_append2)
  have "visit reg n (Ctl n BeginConfigure # pre @ Ctl n EndConfigure # post)"
    using pre post by (simp add: visit_def tw Let_def)
  moreover have "tr2 = tr @ (Ctl n BeginConfigure # pre @ Ctl n EndConfigure # post)"
    by (simp add: tr1 tr2)
  ultimately show ?thesis
    by blast
qed

lemma beginConfigure_steps:
  "steps reg (name s) (trace s @ [Ctl (name s) BeginConfigure]) (trace (snd (beginConfigure s)))"
  by (simp add: beginConfigure_eq steps_def quiet_event_def)

lemma beginConfigure_name: "name (snd (beginConfigure s)) = name s"
  by (simp add: beginConfigure_eq)

lemma tryConfigureVideoMode_steps:
  "steps reg (name s) (trace s) (trace (snd (tryConfigureVideoMode hw m s)))"
  by (simp add: tryConfigureVideoMode_eq Let_def steps_def quiet_event_def)

lemma tryConfigureVideoMode_name: "name (snd (tryConfigureVideoMode hw m s)) = name s"
  by (simp add: tryConfigureVideoMode_eq Let_def)

lemma endConfigure_name: "name (endConfigure hw s) = name s"
  by (cases "was_running s";
      cases "answer hw (sensorType (stream s)) (calls (stream s)) = STATUS_OK")
    (simp_all add: endConfigure_idle endConfigure_restarted endConfigure_recovering)

lemma endConfigure_steps:
  "steps reg (name s) (trace s @ [Ctl (name s) EndConfigure]) (trace (endConfigure hw s))"
  by (cases "was_running s";
      cases "answer hw (sensorType (stream s)) (calls (stream s)) = STATUS_OK")
    (simp_all add: endConfigure_idle endConfigure_restarted endConfigure_recovering
      steps_def quiet_event_def)

lemma when_flagged_steps:
  "a \<noteq> BeginConfigure \<Longrightarrow> a \<noteq> EndConfigure \<Longrightarrow>
   steps reg (name s) (trace s) (trace (when_flagged b a s))"
  by (simp add: when_flagged_def emit_def steps_def quiet_event_def)

lemma when_flagged_name: "name (when_flagged b a s) = name s"
  by (simp add: when_flagged_def emit_def)

subsection \<open>The colour and infrared blocks\<close>

lemma fst_beginConfigure: "fst (beginConfigure s) = True"
  by (simp add: beginConfigure_eq)

lemma configure_resolution_ok:
  assumes "flagged \<longrightarrow> res key \<noteq> None"
  shows "\<exists>m'. configure_resolution hw res flagged key m = Inr m' \<and> name m' = name m \<and>
            steps reg (name m) (trace m) (trace m')"
proof (cases flagged)
  case False
  then show ?thesis
    by (simp add: configure_resolution_def steps_refl)
next
  case True
  with assms obtain mode where "res key = Some mode"
    by auto
  with True show ?thesis
    by (simp add: configure_resolution_def tryConfigureVideoMode_name tryConfigureVideoMode_steps)
qed

lemma configure_resolution_fails:
  "flagged \<Longrightarrow> res key = None \<Longrightarrow> configure_resolution hw res flagged key m = Inl AssertionFailed"
  by (simp add: configure_resolution_def)

lemma configure_rgb_Base:
  "rgb_sensor cam = SensorStreamManagerBase \<Longrightarrow> configure_rgb hw cfg level cam = Inr cam"
  by (simp add: configure_rgb_def base_beginConfigure_def)

lemma configure_rgb_Manager:
  "rgb_sensor cam = Manager m0 \<Longrightarrow>
   configure_rgb hw cfg level cam =
     (case configure_resolution hw (resolutions cam) (level AND 8 \<noteq> 0) (rgb_resolution cfg)
             (snd (beginConfigure (m0\<lparr>trace := effects cam\<rparr>))) of
        Inl e \<Rightarrow> Inl e
      | Inr m2 \<Rightarrow>
          Inr (cam\<lparr>rgb_sensor := Manager (endConfigure hw
                  (when_flagged (level AND 64 \<noteq> 0) (SetMirroringEnabled (mirror cfg))
                    (when_flagged (level AND 4 \<noteq> 0) (SetAutoWhiteBalanceEnabled (auto_white_balance cfg))
                      (when_flagged (level AND 2 \<noteq> 0) (SetAutoExposureEnabled (auto_exposure cfg)) m2)))),
                 effects := trace (endConfigure hw
                  (when_flagged (level AND 64 \<noteq> 0) (SetMirroringEnabled (mirror cfg))
                    (when_flagged (level AND 4 \<noteq> 0) (SetAutoWhiteBalanceEnabled (auto_white_balance cfg))
                      (when_flagged (level AND 2 \<noteq> 0) (SetAutoExposureEnabled (auto_exposure cfg)) m2))))\<rparr>))"
  by (simp add: configure_rgb_def split_def fst_beginConfigure Let_def split: sum.split)

lemma configure_rgb_visit:
  assumes "rgb_sensor cam \<noteq> SensorStreamManagerBase \<and> level AND 8 \<noteq> 0
             \<longrightarrow> resolutions cam (rgb_resolution cfg) \<noteq> None"
  shows "\<exists>cam1 evs. configure_rgb hw cfg level cam = Inr cam1 \<and>
           effects cam1 = effects cam @ evs \<and> visit_of False (rgb_sensor cam) evs \<and>
           depth_sensor cam1 = depth_sensor cam \<and> ir_sensor cam1 = ir_sensor cam \<and>
           device cam1 = device cam \<and> resolutions cam1 = resolutions cam"
proof (cases "rgb_sensor cam")
  case SensorStreamManagerBase
  then show ?thesis
    by (simp add: configure_rgb_Base visit_of_def)
next
  case (Manager m0)
  let ?m0 = "m0\<lparr>trace := effects cam\<rparr>"
  let ?m1 = "snd (beginConfigure ?m0)"
  have n1: "name ?m1 = name m0"
    by (simp add: beginConfigure_name)
  have "level AND 8 \<noteq> 0 \<longrightarrow> resolutions cam (rgb_resolution cfg) \<noteq> None"
    using assms Manager by simp
  from configure_resolution_ok
    [of "level AND 8 \<noteq> 0" "resolutions cam" "rgb_resolution cfg" hw ?m1 False, OF this]
  obtain m2 where
    cr: "configure_resolution hw (resolutions cam) (level AND 8 \<noteq> 0) (rgb_resolution cfg) ?m1 = Inr m2"
    and n2: "name m2 = name m0"
    and s2: "steps False (name m0) (trace ?m1) (trace m2)"
    using n1 by auto
  let ?m3 = "when_flagged (level AND 2 \<noteq> 0) (SetAutoExposureEnabled (auto_exposure cfg)) m2"
  let ?m4 = "when_flagged (level AND 4 \<noteq> 0) (SetAutoWhiteBalanceEnabled (auto_white_balance cfg)) ?m3"
  let ?m5 = "when_flagged (level AND 64 \<noteq> 0) (SetMirroringEnabled (mirror cfg)) ?m4"
  let ?m6 = "endConfigure hw ?m5"
  have eq: "configure_rgb hw cfg level cam =
      Inr (cam\<lparr>rgb_sensor := Manager ?m6, effects := trace ?m6\<rparr>)"
    using Manager cr by (simp add: configure_rgb_Manager)
  have s1: "steps False (name m0) (effects cam @ [Ctl (name m0) BeginConfigure]) (trace ?m1)"
    using beginConfigure_steps [of False ?m0] by simp
  have s3: "steps False (name m0) (trace m2) (trace ?m3)"
    using when_flagged_steps [of _ False m2] by (simp add: n2)
  have s4: "steps False (name m0) (trace ?m3) (trace ?m4)"
    using when_flagged_steps [of _ False ?m3] by (simp add: n2 when_flagged_name)
  have s5: "steps False (name m0) (trace ?m4) (trace ?m5)"
    using when_flagged_steps [of _ False ?m4] by (simp add: n2 when_flagged_name)
  have s6: "steps False (name m0) (trace ?m5 @ [Ctl (name m0) EndConfigure]) (trace ?m6)"
    using endConfigure_steps [of False ?m5 hw] by (simp add: n2 when_flagged_name)
  have "steps False (name m0) (effects cam @ [Ctl (name m0) BeginConfigure]) (trace ?m5)"
    by (rule steps_trans [OF s1 steps_trans [OF s2 steps_trans [OF s3 steps_trans [OF s4 s5]]]])
  from visitI [OF this s6] obtain evs where
    "trace ?m6 = effects cam @ evs" and "visit False (name m0) evs"
    by blast
  then show ?thesis
    using eq Manager by (simp add: visit_of_def)
qed

lemma configure_rgb_fails:
  assumes "rgb_sensor cam \<noteq> SensorStreamManagerBase" and "level AND 8 \<noteq> 0"
    and "resolutions cam (rgb_resolution cfg) = None"
  shows "configure_rgb hw cfg level cam = Inl AssertionFailed"
proof -
  from assms(1) obtain m0 where "rgb_sensor cam = Manager m0"
    by (cases "rgb_sensor cam") simp_all
  then show ?thesis
    using assms by (simp add: configure_rgb_Manager configure_resolution_fails)
qed

lemma configure_ir_Base:
  "ir_sensor cam = SensorStreamManagerBase \<Longrightarrow> configure_ir hw cfg level cam = Inr cam"
  by (simp add: configure_ir_def base_beginConfigure_def)

lemma configure_ir_Manager:
  "ir_sensor cam = Manager m0 \<Longrightarrow>
   configure_ir hw cfg level cam =
     (case configure_resolution hw (resolutions cam) (level AND 32 \<noteq> 0) (ir_resolution cfg)
             (snd (beginConfigure (m0\<lparr>trace := effects cam\<rparr>))) of
        Inl e \<Rightarrow> Inl e
      | Inr m2 \<Rightarrow>
          Inr (cam\<lparr>ir_sensor := Manager (endConfigure hw
                  (when_flagged (level AND 64 \<noteq> 0) (SetMirroringEnabled (mirror cfg)) m2)),
                 effects := trace (endConfigure hw
                  (when_flagged (level AND 64 \<noteq> 0) (SetMirroringEnabled (mirror cfg)) m2))\<rparr>))"
  by (simp add: configure_ir_def split_def fst_beginConfigure Let_def split: sum.split)

lemma configure_ir_visit:
  assumes "ir_sensor cam \<noteq> SensorStreamManagerBase \<and> level AND 32 \<noteq> 0
             \<longrightarrow> resolutions cam (ir_resolution cfg) \<noteq> None"
  shows "\<exists>cam1 evs. configure_ir hw cfg level cam = Inr cam1 \<and>
           effects cam1 = effects cam @ evs \<and> visit_of False (ir_sensor cam) evs \<and>
           device cam1 = device cam"
proof (cases "ir_sensor cam")
  case SensorStreamManagerBase
  then show ?thesis
    by (simp add: configure_ir_Base visit_of_def)
next
  case (Manager m0)
  let ?m0 = "m0\<lparr>trace := effects cam\<rparr>"
  let ?m1 = "snd (beginConfigure ?m0)"
  have n1: "name ?m1 = name m0"
    by (simp add: beginConfigure_name)
  have "level AND 32 \<noteq> 0 \<longrightarrow> resolutions cam (ir_resolution cfg) \<noteq> None"
    using assms Manager by simp
  from configure_resolution_ok
    [of "level AND 32 \<noteq> 0" "resolutions cam" "ir_resolution cfg" hw ?m1 False, OF this]
  obtain m2 where
    cr: "configure_resolution hw (resolutions cam) (level AND 32 \<noteq> 0) (ir_resolution cfg) ?m1 = Inr m2"
    and n2: "name m2 = name m0"
    and s2: "steps False (name m0) (trace ?m1) (trace m2)"
    using n1 by auto
  let ?m3 = "when_flagged (level AND 64 \<noteq> 0) (SetMirroringEnabled (mirror cfg)) m2"
  let ?m4 = "endConfigure hw ?m3"
  have eq: "configure_ir hw cfg level cam =
      Inr (cam\<lparr>ir_sensor := Manager ?m4, effects := trace ?m4\<rparr>)"
    using Manager cr by (simp add: configure_ir_Manager)
  have s1: "steps False (name m0) (effects cam @ [Ctl (name m0) BeginConfigure]) (trace ?m1)"
    using beginConfigure_steps [of False ?m0] by simp
  have s3: "steps False (name m0) (trace m2) (trace ?m3)"
    using when_flagged_steps [of _ False m2] by (simp add: n2)
  have s4: "steps False (name m0) (trace ?m3 @ [Ctl (name m0) EndConfigure]) (trace ?m4)"
    using endConfigure_steps [of False ?m3 hw] by (simp add: n2 when_flagged_name)
  have "steps False (name m0) (effects cam @ [Ctl (name m0) BeginConfigure]) (trace ?m3)"
    by (rule steps_trans [OF s1 steps_trans [OF s2 s3]])
  from visitI [OF this s4] obtain evs where
    "trace ?m4 = effects cam @ evs" and "visit False (name m0) evs"
    by blast
  then show ?thesis
    using eq Manager by (simp add: visit_of_def)
qed

lemma configure_ir_fails:
  assumes "ir_sensor cam \<noteq> SensorStreamManagerBase" and "level AND 32 \<noteq> 0"
    and "resolutions cam (ir_resolution cfg) = None"
  shows "configure_ir hw cfg level cam = Inl AssertionFailed"
proof -
  from assms(1) obtain m0 where "ir_sensor cam = Manager m0"
    by (cases "ir_sensor cam") simp_all
  then show ?thesis
    using assms by (simp add: configure_ir_Manager configure_resolution_fails)
qed

subsection \<open>The depth block and the whole of configure\<close>

lemma configure_registration_eq:
  "configure_registration hw flagged (cfg, dev, tr) =
     (if flagged \<and> depth_registration cfg \<and> \<not> registration_supported hw
      then cfg\<lparr>depth_registration := False\<rparr> else cfg,
      if flagged
      then (if depth_registration cfg
            then (if registration_supported hw
                  then dev\<lparr>registrationMode := IMAGE_REGISTRATION_DEPTH_TO_COLOR\<rparr> else dev)
            else dev\<lparr>registrationMode := IMAGE_REGISTRATION_OFF\<rparr>)
      else dev,
      if flagged \<and> (depth_registration cfg \<longrightarrow> registration_supported hw)
      then tr @ [SetImageRegistrationMode
                   (if depth_registration cfg then IMAGE_REGISTRATION_DEPTH_TO_COLOR
                    else IMAGE_REGISTRATION_OFF)]
      else tr)"
  by (simp add: configure_registration_def)

lemma configure_registration_steps:
  "steps True n tr (snd (snd (configure_registration hw flagged (cfg, dev, tr))))"
  by (simp add: configure_registration_eq steps_def quiet_event_def)

lemma depth_endConfigure_steps:
  "steps reg (name s) (trace s @ [Ctl (name s) EndConfigure]) (trace (depth_endConfigure hw dev s))"
  by (simp add: depth_endConfigure_sel endConfigure_steps)

lemma configure_depth_Base:
  "depth_sensor cam = SensorStreamManagerBase \<Longrightarrow>
   configure_depth hw cfg level cam = Inr (cfg, cam)"
  by (simp add: configure_depth_def base_beginConfigure_def)

lemma configure_depth_Manager:
  "depth_sensor cam = Manager m0 \<Longrightarrow>
   configure_depth hw cfg level cam =
     (case configure_resolution hw (resolutions cam) (level AND 16 \<noteq> 0) (depth_resolution cfg)
             (snd (beginConfigure (m0\<lparr>trace := effects cam\<rparr>))) of
        Inl e \<Rightarrow> Inl e
      | Inr m2 \<Rightarrow>
          Inr (fst (configure_registration hw (level AND 1 \<noteq> 0) (cfg, device cam, trace m2)),
               cam\<lparr>depth_sensor := Manager
                      (depth_endConfigure hw
                        (fst (snd (configure_registration hw (level AND 1 \<noteq> 0) (cfg, device cam, trace m2))))
                        (when_flagged (level AND 64 \<noteq> 0)
                          (SetMirroringEnabled
                            (mirror (fst (configure_registration hw (level AND 1 \<noteq> 0) (cfg, device cam, trace m2)))))
                          (m2\<lparr>trace := snd (snd (configure_registration hw (level AND 1 \<noteq> 0)
                                                  (cfg, device cam, trace m2)))\<rparr>))),
                   device := fst (snd (configure_registration hw (level AND 1 \<noteq> 0) (cfg, device cam, trace m2))),
                   effects := trace
                      (depth_endConfigure hw
                        (fst (snd (configure_registration hw (level AND 1 \<noteq> 0) (cfg, device cam, trace m2))))
                        (when_flagged (level AND 64 \<noteq> 0)
                          (SetMirroringEnabled
                            (mirror (fst (configure_registration hw (level AND 1 \<noteq> 0) (cfg, device cam, trace m2)))))
                          (m2\<lparr>trace := snd (snd (configure_registration hw (level AND 1 \<noteq> 0)
                                                  (cfg, device cam, trace m2)))\<rparr>)))\<rparr>))"
  by (simp add: configure_depth_def split_def fst_beginConfigure Let_def split: sum.split)

lemma configure_depth_visit:
  assumes "depth_sensor cam \<noteq> SensorStreamManagerBase \<and> level AND 16 \<noteq> 0
             \<longrightarrow> resolutions cam (depth_resolution cfg) \<noteq> None"
  shows "\<exists>cfg2 cam2 evs. configure_depth hw cfg level cam = Inr (cfg2, cam2) \<and>
           effects cam2 = effects cam @ evs \<and> visit_of True (depth_sensor cam) evs \<and>
           ir_sensor cam2 = ir_sensor cam \<and> resolutions cam2 = resolutions cam \<and>
           ir_resolution cfg2 = ir_resolution cfg \<and>
           cfg2 = (if depth_sensor cam = SensorStreamManagerBase then cfg
                   else fst (configure_registration hw (level AND 1 \<noteq> 0) (cfg, device cam, []))) \<and>
           device cam2 = (if depth_sensor cam = SensorStreamManagerBase then device cam
                   else fst (snd (configure_registration hw (level AND 1 \<noteq> 0) (cfg, device cam, []))))"
proof (cases "depth_sensor cam")
  case SensorStreamManagerBase
  then show ?thesis
    by (simp add: configure_depth_Base visit_of_def)
next
  case (Manager m0)
  let ?m0 = "m0\<lparr>trace := effects cam\<rparr>"
  let ?m1 = "snd (beginConfigure ?m0)"
  have n1: "name ?m1 = name m0"
    by (simp add: beginConfigure_name)
  have "level AND 16 \<noteq> 0 \<longrightarrow> resolutions cam (depth_resolution cfg) \<noteq> None"
    using assms Manager by simp
  from configure_resolution_ok
    [of "level AND 16 \<noteq> 0" "resolutions cam" "depth_resolution cfg" hw ?m1 True, OF this]
  obtain m2 where
    cr: "configure_resolution hw (resolutions cam) (level AND 16 \<noteq> 0) (depth_resolution cfg) ?m1 = Inr m2"
    and n2: "name m2 = name m0"
    and s2: "steps True (name m0) (trace ?m1) (trace m2)"
    using n1 by auto
  let ?r = "configure_registration hw (level AND 1 \<noteq> 0) (cfg, device cam, trace m2)"
  let ?m3 = "m2\<lparr>trace := snd (snd ?r)\<rparr>"
  let ?m4 = "when_flagged (level AND 64 \<noteq> 0) (SetMirroringEnabled (mirror (fst ?r))) ?m3"
  let ?m5 = "depth_endConfigure hw (fst (snd ?r)) ?m4"
  have eq: "configure_depth hw cfg level cam =
      Inr (fst ?r, cam\<lparr>depth_sensor := Manager ?m5, device := fst (snd ?r), effects := trace ?m5\<rparr>)"
    using Manager cr by (simp add: configure_depth_Manager)
  have s1: "steps True (name m0) (effects cam @ [Ctl (name m0) BeginConfigure]) (trace ?m1)"
    using beginConfigure_steps [of True ?m0] by simp
  have s3: "steps True (name m0) (trace m2) (trace ?m3)"
    using configure_registration_steps [of "name m0" "trace m2"] by simp
  have s4: "steps True (name m0) (trace ?m3) (trace ?m4)"
    using when_flagged_steps [of _ True ?m3] by (simp add: n2)
  have s5: "steps True (name m0) (trace ?m4 @ [Ctl (name m0) EndConfigure]) (trace ?m5)"
    using depth_endConfigure_steps [of True ?m4 hw] by (simp add: n2 when_flagged_name)
  have "steps True (name m0) (effects cam @ [Ctl (name m0) BeginConfigure]) (trace ?m4)"
    by (rule steps_trans [OF s1 steps_trans [OF s2 steps_trans [OF s3 s4]]])
  from visitI [OF this s5] obtain evs where
    "trace ?m5 = effects cam @ evs" and "visit True (name m0) evs"
    by blast
  then show ?thesis
    using eq Manager by (simp add: visit_of_def configure_registration_eq)
qed

lemma configure_depth_fails:
  assumes "depth_sensor cam \<noteq> SensorStreamManagerBase" and "level AND 16 \<noteq> 0"
    and "resolutions cam (depth_resolution cfg) = None"
  shows "configure_depth hw cfg level cam = Inl AssertionFailed"
proof -
  from assms(1) obtain m0 where "depth_sensor cam = Manager m0"
    by (cases "depth_sensor cam") simp_all
  then show ?thesis
    using assms by (simp add: configure_depth_Manager configure_resolution_fails)
qed

lemma configure_completes:
  assumes "asserts_hold cfg level cam"
  shows "\<exists>cfg' cam' er ed ei.
           configure hw cfg level cam = Inr (cfg', cam') \<and>
           effects cam' = effects cam @ er @ ed @ ei @ [SetDepthColorSyncEnabled True] \<and>
           visit_of False (rgb_sensor cam) er \<and>
           visit_of True (depth_sensor cam) ed \<and>
           visit_of False (ir_sensor cam) ei \<and>
           depthColorSyncEnabled (device cam') \<and>
           cfg' = (if depth_sensor cam = SensorStreamManagerBase then cfg
                   else fst (configure_registration hw (level AND 1 \<noteq> 0) (cfg, device cam, []))) \<and>
           registrationMode (device cam') =
             registrationMode
               (if depth_sensor cam = SensorStreamManagerBase then device cam
                else fst (snd (configure_registration hw (level AND 1 \<noteq> 0) (cfg, device cam, []))))"
proof -
  from assms have
    a1: "rgb_sensor cam \<noteq> SensorStreamManagerBase \<and> level AND 8 \<noteq> 0
           \<longrightarrow> resolutions cam (rgb_resolution cfg) \<noteq> None" and
    a2: "depth_sensor cam \<noteq> SensorStreamManagerBase \<and> level AND 16 \<noteq> 0
           \<longrightarrow> resolutions cam (depth_resolution cfg) \<noteq> None" and
    a3: "ir_sensor cam \<noteq> SensorStreamManagerBase \<and> level AND 32 \<noteq> 0
           \<longrightarrow> resolutions cam (ir_resolution cfg) \<noteq> None"
    by (simp_all add: asserts_hold_def)
  from configure_rgb_visit [OF a1, of hw] obtain cam1 er where
    c1: "configure_rgb hw cfg level cam = Inr cam1" and
    e1: "effects cam1 = effects cam @ er" and
    v1: "visit_of False (rgb_sensor cam) er" and
    k1: "depth_sensor cam1 = depth_sensor cam" "ir_sensor cam1 = ir_sensor cam"
        "device cam1 = device cam" "resolutions cam1 = resolutions cam"
    by blast
  have a2': "depth_sensor cam1 \<noteq> SensorStreamManagerBase \<and> level AND 16 \<noteq> 0
           \<longrightarrow> resolutions cam1 (depth_resolution cfg) \<noteq> None"
    using a2 k1 by simp
  from configure_depth_visit [OF a2', of hw] obtain cfg2 cam2 ed where
    c2: "configure_depth hw cfg level cam1 = Inr (cfg2, cam2)" and
    e2: "effects cam2 = effects cam1 @ ed" and
    v2: "visit_of True (depth_sensor cam1) ed" and
    k2: "ir_sensor cam2 = ir_sensor cam1" "resolutions cam2 = resolutions cam1"
        "ir_resolution cfg2 = ir_resolution cfg" and
    cfg2: "cfg2 = (if depth_sensor cam1 = SensorStreamManagerBase then cfg
                   else fst (configure_registration hw (level AND 1 \<noteq> 0) (cfg, device cam1, [])))" and
    dev2: "device cam2 = (if depth_sensor cam1 = SensorStreamManagerBase then device cam1
                   else fst (snd (configure_registration hw (level AND 1 \<noteq> 0) (cfg, device cam1, []))))"
    by blast
  have a3': "ir_sensor cam2 \<noteq> SensorStreamManagerBase \<and> level AND 32 \<noteq> 0
           \<longrightarrow> resolutions cam2 (ir_resolution cfg2) \<noteq> None"
    using a3 k1 k2 by simp
  from configure_ir_visit [OF a3', of hw] obtain cam3 ei where
    c3: "configure_ir hw cfg2 level cam2 = Inr cam3" and
    e3: "effects cam3 = effects cam2 @ ei" and
    v3: "visit_of False (ir_sensor cam2) ei" and
    k3: "device cam3 = device cam2"
    by blast
  let ?cam' = "cam3\<lparr>device := (device cam3)\<lparr>depthColorSyncEnabled := True\<rparr>,
                    effects := effects cam3 @ [SetDepthColorSyncEnabled True]\<rparr>"
  have "configure hw cfg level cam = Inr (cfg2, ?cam')"
    by (simp add: configure_def c1 c2 c3)
  moreover have "effects ?cam' = effects cam @ er @ ed @ ei @ [SetDepthColorSyncEnabled True]"
    by (simp add: e1 e2 e3)
  moreover have "visit_of True (depth_sensor cam) ed" "visit_of False (ir_sensor cam) ei"
    using v2 v3 k1 k2 by simp_all
  moreover have "depthColorSyncEnabled (device ?cam')"
    by simp
  moreover have "registrationMode (device ?cam') =
      registrationMode
        (if depth_sensor cam = SensorStreamManagerBase then device cam
         else fst (snd (configure_registration hw (level AND 1 \<noteq> 0) (cfg, device cam, []))))"
    using dev2 k1 k3 by simp
  moreover have "cfg2 = (if depth_sensor cam = SensorStreamManagerBase then cfg
                   else fst (configure_registration hw (level AND 1 \<noteq> 0) (cfg, device cam, [])))"
    using cfg2 k1 by simp
  ultimately show ?thesis
    using v1 by blast
qed

lemma configure_aborts:
  assumes "\<not> asserts_hold cfg level cam"
  shows "configure hw cfg level cam = Inl AssertionFailed"
proof (cases "rgb_sensor cam \<noteq> SensorStreamManagerBase \<and> level AND 8 \<noteq> 0 \<and>
               resolutions cam (rgb_resolution cfg) = None")
  case True
  then show ?thesis
    by (simp add: configure_def configure_rgb_fails)
next
  case rgb_ok: False
  then have "rgb_sensor cam \<noteq> SensorStreamManagerBase \<and> level AND 8 \<noteq> 0
           \<longrightarrow> resolutions cam (rgb_resolution cfg) \<noteq> None"
    by auto
  from configure_rgb_visit [OF this, of hw] obtain cam1 where
    c1: "configure_rgb hw cfg level cam = Inr cam1" and
    k1: "depth_sensor cam1 = depth_sensor cam" "ir_sensor cam1 = ir_sensor cam"
        "resolutions cam1 = resolutions cam"
    by blast
  show ?thesis
  proof (cases "depth_sensor cam \<noteq> SensorStreamManagerBase \<and> level AND 16 \<noteq> 0 \<and>
                 resolutions cam (depth_resolution cfg) = None")
    case True
    then show ?thesis
      using k1 by (simp add: configure_def c1 configure_depth_fails)
  next
    case depth_ok: False
    then have "depth_sensor cam1 \<noteq> SensorStreamManagerBase \<and> level AND 16 \<noteq> 0
           \<longrightarrow> resolutions cam1 (depth_resolution cfg) \<noteq> None"
      using k1 by auto
    from configure_depth_visit [OF this, of hw] obtain cfg2 cam2 where
      c2: "configure_depth hw cfg level cam1 = Inr (cfg2, cam2)" and
      k2: "ir_sensor cam2 = ir_sensor cam1" "resolutions cam2 = resolutions cam1"
          "ir_resolution cfg2 = ir_resolution cfg"
      by blast
    from assms rgb_ok depth_ok have
      "ir_sensor cam \<noteq> SensorStreamManagerBase" "level AND 32 \<noteq> 0"
      "resolutions cam (ir_resolution cfg) = None"
      by (auto simp add: asserts_hold_def)
    then have "configure_ir hw cfg2 level cam2 = Inl AssertionFailed"
      using k1 k2 by (intro configure_ir_fails) simp_all
    then show ?thesis
      by (simp add: configure_def c1 c2)
  qed
qed

lemmas camera_defs = example_resolutions_def example_config_def example_camera_def
  colour_only_camera_def

subsection \<open>Frames\<close>

lemma prepare_frame_eq:
  "prepare_frame ts frame s =
     ((image_of ts (frame_id s) frame, camera_info_of ts (frame_id s) frame),
      if encoding_of (pixelFormat (frame_videoMode frame)) = None
      then s\<lparr>trace := trace s @ [Ctl (name s) (Log WARN Unknown_OpenNI_pixel_format)]\<rparr> else s)"
  by (simp add: prepare_frame_def Let_def emit_def)

lemma depth_onNewFrame_trace:
  "trace (depth_onNewFrame ts frame s) =
     trace s @
     (if encoding_of (pixelFormat (frame_videoMode frame)) = None
      then [Ctl (name s) (Log WARN Unknown_OpenNI_pixel_format)] else []) @
     (case active_publisher s of
        None \<Rightarrow> []
      | Some p \<Rightarrow> [Ctl (name s)
          (Publish p (image_of ts (frame_id s) frame) (camera_info_of ts (frame_id s) frame))])"
  by (simp add: depth_onNewFrame_def prepare_frame_eq depth_publish_def emit_def
      split: option.split)

lemma onNewFrame_trace:
  "trace (onNewFrame ts frame s) =
     trace s @
     (if encoding_of (pixelFormat (frame_videoMode frame)) = None
      then [Ctl (name s) (Log WARN Unknown_OpenNI_pixel_format)] else []) @
     [Ctl (name s)
        (Publish publisher (image_of ts (frame_id s) frame) (camera_info_of ts (frame_id s) frame))]"
  by (simp add: onNewFrame_def prepare_frame_eq publish_def emit_def)

lemma K_shape:
  "K (camera_info_of ts fid frame) =
     [binary64 (1050 * binary64 (of_int (frame_width frame) / 1280)), 0,
      binary64 (binary64 (of_int (frame_width frame) / 2) - 1 / 2), 0,
      binary64 (1050 * binary64 (of_int (frame_width frame) / 1280)),
      binary64 (binary64 (of_int (frame_height frame) / 2) - 1 / 2), 0, 0, 0]"
  by (simp add: camera_info_of_def Let_def eval_nat_numeral)

lemma centre_exact:
  assumes "- (2 ^ 31) \<le> n" and "n < 2 ^ 31"
  shows "binary64 (binary64 (of_int n / 2) - 1 / 2) = of_int n / 2 - 1 / 2"
proof -
  have small: "\<bar>n\<bar> < 2 ^ 53" "\<bar>n - 1\<bar> < 2 ^ 53"
    using assms by simp_all
  have h1: "binary64 (of_int n / 2) = of_int n / 2"
    by (rule binary64_half) (rule small)
  have h2: "binary64 (of_int (n - 1) / 2) = of_int (n - 1) / 2"
    by (rule binary64_half) (rule small)
  have e: "(of_int n / 2 - 1 / 2 :: rat) = of_int (n - 1) / 2"
    by (simp add: diff_divide_distrib)
  show ?thesis
    by (simp only: h1 e h2)
qed

lemma focal_exact:
  assumes "- (2 ^ 31) \<le> n" and "n < 2 ^ 31" and "5 dvd n"
  shows "binary64 (1050 * binary64 (of_int n / 1280)) = 1050 * (of_int n / 1280)"
proof -
  from assms(3) obtain q where n: "n = 5 * q"
    by (auto simp add: dvd_def)
  have q: "\<bar>q\<bar> < 2 ^ 53" and q525: "\<bar>525 * q\<bar> < 2 ^ 53"
    using assms(1,2) by (simp_all add: n)
  have scale: "(of_int n / 1280 :: rat) = of_int q * pow2 (- 8)"
    by (simp add: n pow2_def)
  have prod: "(1050 * (of_int q * pow2 (- 8)) :: rat) = of_int (525 * q) * pow2 (- 7)"
    by (simp add: pow2_def)
  have "binary64 (of_int n / 1280) = of_int q * pow2 (- 8)"
    unfolding scale by (rule binary64_exact [OF q]) simp
  moreover have "binary64 (of_int (525 * q) * pow2 (- 7)) = of_int (525 * q) * pow2 (- 7)"
    by (rule binary64_exact [OF q525]) simp
  ultimately show ?thesis
    by (simp only: prod scale)
qed

lemma all_clients_one: "all_clients one_disparity_client = 1"
  by (simp add: all_clients_def one_disparity_client_def Let_def)

section \<open>The claims\<close>

text \<open>
  C1. Let \<^verbatim>\<open>endConfigure\<close> run on a controller that \<^verbatim>\<open>beginConfigure\<close> paused while
  it was running, and let the first \<^verbatim>\<open>start\<close> fail. Then the controller logs a
  warning and makes exactly one recovery trial, which is \<open>max_trials\<close> of them: it
  sleeps 100 ms, removes the frame listener, destroys the stream, creates it again for
  the same sensor kind, adds the listener and calls \<^verbatim>\<open>start\<close> once more. If that
  start succeeds, recovery is logged, \<open>running\<close> becomes true and the stream is
  started; if it fails, the failed trial and an error are logged, \<open>running\<close> stays
  false and the stream is stopped. With any other bound in place of \<open>max_trials\<close>
  the loop still makes no more recovery trials than the bound.
\<close>

theorem endConfigure_restart_recovery:
  assumes "was_running s" and "\<not> running s"
    and "answer hw (sensorType (stream s)) (calls (stream s)) \<noteq> STATUS_OK"
  shows
    "(let t = sensorType (stream s);
          k = calls (stream s);
          rc_create = answer hw t (k + 1);
          rc_retry = answer hw t (k + 2);
          s' = endConfigure hw s
      in trace s' = trace s @ map (Ctl (name s))
           ([EndConfigure, Start (answer hw t k),
             Log WARN Failed_to_restart_stream_after_configuration,
             Sleep_ms 100, RemoveNewFrameListener, Destroy, Create t rc_create,
             AddNewFrameListener, Start rc_retry] @
            (if rc_retry = STATUS_OK
             then [Log INFO Recovered_stream]
             else [Log WARN (Recovery_trial_failed 0),
                   Log ERROR Failed_to_recover_stream_Restart_required])) \<and>
         running s' = (rc_retry = STATUS_OK) \<and>
         started (stream s') = (rc_retry = STATUS_OK) \<and>
         listeners (stream s') = 1 \<and>
         recovery_trials (trace s') = recovery_trials (trace s) + nat max_trials \<and>
         (\<forall>mt. recovery_trials (trace (endConfigure_with mt hw s))
                 \<le> recovery_trials (trace s) + nat mt))"
  using assms
  by (simp add: Let_def endConfigure_recovering endConfigure_with_trials recovery_trials_simps
      max_trials_def)

theorem endConfigure_restart_recovery_witness:
  "was_running (example_rgb False True) \<and> \<not> running (example_rgb False True) \<and>
   answer (example_hardware [STATUS_ERROR, STATUS_OK, STATUS_OK]) SENSOR_COLOR 0 \<noteq> STATUS_OK \<and>
   running (endConfigure (example_hardware [STATUS_ERROR, STATUS_OK, STATUS_OK])
              (example_rgb False True)) \<and>
   trace (endConfigure (example_hardware [STATUS_ERROR, STATUS_OK, STATUS_OK])
            (example_rgb False True)) =
     map (Ctl ''rgb'')
       [EndConfigure, Start STATUS_ERROR, Log WARN Failed_to_restart_stream_after_configuration,
        Sleep_ms 100, RemoveNewFrameListener, Destroy, Create SENSOR_COLOR STATUS_OK,
        AddNewFrameListener, Start STATUS_OK, Log INFO Recovered_stream]"
  using endConfigure_restart_recovery
    [of "example_rgb False True" "example_hardware [STATUS_ERROR, STATUS_OK, STATUS_OK]"]
  by (simp add: example_defs Let_def)

text \<open>
  C2, as the code has it. \<^verbatim>\<open>beginConfigure\<close> followed at once by
  \<^verbatim>\<open>endConfigure\<close> leaves a stopped stream stopped and untouched. A stream that was
  running is running again exactly when the device accepts the restart or, after
  refusing it, accepts the start of the one recovery trial; when it refuses both, the
  stream stays stopped. The depth controller behaves the same way.
\<close>

theorem configure_roundtrip_restores_running:
  "(let t = sensorType (stream s); k = calls (stream s);
        s' = endConfigure hw (snd (beginConfigure s))
    in running s' =
         (running s \<and> (answer hw t k = STATUS_OK \<or> answer hw t (k + 2) = STATUS_OK)) \<and>
       (\<not> running s \<longrightarrow> stream s' = stream s) \<and>
       (running s \<longrightarrow> started (stream s') = running s')) \<and>
   (let t = sensorType (stream d); k = calls (stream d);
        d' = depth_endConfigure hw dev (snd (beginConfigure d))
    in running d' =
         (running d \<and> (answer hw t k = STATUS_OK \<or> answer hw t (k + 2) = STATUS_OK)))"
  using endConfigure_after_begin [of s hw] endConfigure_after_begin [of d hw]
  by (simp add: Let_def depth_endConfigure_sel)

theorem configure_roundtrip_restores_running_witness:
  "running (example_rgb True False) \<and>
   answer (example_hardware [STATUS_OK]) SENSOR_COLOR 0 = STATUS_OK \<and>
   running (endConfigure (example_hardware [STATUS_OK])
              (snd (beginConfigure (example_rgb True False)))) \<and>
   started (stream (endConfigure (example_hardware [STATUS_OK])
                      (snd (beginConfigure (example_rgb True False))))) \<and>
   \<not> running (example_depth False False PIXEL_FORMAT_DEPTH_1_MM) \<and>
   \<not> running (depth_endConfigure (example_hardware [STATUS_OK])
                  (example_device IMAGE_REGISTRATION_OFF)
                  (snd (beginConfigure (example_depth False False PIXEL_FORMAT_DEPTH_1_MM))))"
  using configure_roundtrip_restores_running
    [of "example_rgb True False" "example_hardware [STATUS_OK]"
        "example_depth False False PIXEL_FORMAT_DEPTH_1_MM"
        "example_device IMAGE_REGISTRATION_OFF"]
  by (simp add: example_defs Let_def)

text \<open>
  C2, as the claim states it, fails: a colour stream that is running, on a device that
  refuses the restart and the start of the recovery trial, is stopped after
  \<^verbatim>\<open>beginConfigure\<close> and \<^verbatim>\<open>endConfigure\<close>.
\<close>

theorem configure_roundtrip_counterexample:
  "running (example_rgb True False) \<and>
   \<not> running (endConfigure (example_hardware [STATUS_ERROR, STATUS_OK, STATUS_ERROR])
        (snd (beginConfigure (example_rgb True False))))"
  by (simp add: beginConfigure_eq endConfigure_recovering example_defs)

text \<open>
  C3, as the code has it. When the device accepts the requested mode,
  \<^verbatim>\<open>tryConfigureVideoMode\<close> returns true and the stream is in that mode. When the
  device rejects it, the method asks for the prior mode again and returns false; the
  stream is then in the prior mode if the device accepts that second request, or if
  its rejections leave the mode untouched. If the device rejects the second request
  too, the method logs that it failed to recover the old video mode, and the stream
  is in whatever mode the two rejected requests left.
\<close>

theorem tryConfigureVideoMode_outcomes:
  "(let t = sensorType (stream s); k = calls (stream s); old = videoMode (stream s);
        r = tryConfigureVideoMode hw m s;
        mode' = videoMode (stream (snd r))
    in (answer hw t k = STATUS_OK \<longrightarrow> fst r \<and> mode' = m) \<and>
       (answer hw t k \<noteq> STATUS_OK \<longrightarrow>
          \<not> fst r \<and>
          (answer hw t (k + 1) = STATUS_OK \<longrightarrow> mode' = old) \<and>
          (rejected_mode hw old m = old \<and> rejected_mode hw old old = old \<longrightarrow> mode' = old) \<and>
          (answer hw t (k + 1) \<noteq> STATUS_OK \<longrightarrow>
             mode' = rejected_mode hw (rejected_mode hw old m) old \<and>
             last (trace (snd r)) = Ctl (name s) (Log ERROR Failed_to_recover_old_video_mode))))"
  by (simp add: tryConfigureVideoMode_eq Let_def)

theorem tryConfigureVideoMode_outcomes_witness:
  "answer (example_hardware [STATUS_NOT_SUPPORTED, STATUS_OK]) SENSOR_COLOR 0 \<noteq> STATUS_OK \<and>
   answer (example_hardware [STATUS_NOT_SUPPORTED, STATUS_OK]) SENSOR_COLOR 1 = STATUS_OK \<and>
   \<not> fst (tryConfigureVideoMode (example_hardware [STATUS_NOT_SUPPORTED, STATUS_OK])
            (createVideoMode 1280 1024 30 PIXEL_FORMAT_RGB888) (example_rgb False True)) \<and>
   videoMode (stream (snd (tryConfigureVideoMode (example_hardware [STATUS_NOT_SUPPORTED, STATUS_OK])
            (createVideoMode 1280 1024 30 PIXEL_FORMAT_RGB888) (example_rgb False True)))) =
     createVideoMode 640 480 30 PIXEL_FORMAT_RGB888 \<and>
   fst (tryConfigureVideoMode (example_hardware [])
            (createVideoMode 1280 1024 30 PIXEL_FORMAT_RGB888) (example_rgb False True)) \<and>
   videoMode (stream (snd (tryConfigureVideoMode (example_hardware [])
            (createVideoMode 1280 1024 30 PIXEL_FORMAT_RGB888) (example_rgb False True)))) =
     createVideoMode 1280 1024 30 PIXEL_FORMAT_RGB888"
  using tryConfigureVideoMode_outcomes
      [of "example_rgb False True" "example_hardware [STATUS_NOT_SUPPORTED, STATUS_OK]"
          "createVideoMode 1280 1024 30 PIXEL_FORMAT_RGB888"]
    tryConfigureVideoMode_outcomes
      [of "example_rgb False True" "example_hardware []"
          "createVideoMode 1280 1024 30 PIXEL_FORMAT_RGB888"]
  by (simp add: example_defs Let_def)

text \<open>
  C3, as the claim states it, fails: on a device that sets the resolution before it
  refuses the frame rate, and that then times out on the request for the prior mode,
  a rejected change from 640x480 at 30 Hz to 320x240 at 60 Hz leaves the stream in
  320x240 at 30 Hz, which is neither the prior mode nor the requested one.
\<close>

theorem tryConfigureVideoMode_counterexample:
  "\<not> fst (tryConfigureVideoMode (half_applying_hardware [STATUS_NOT_SUPPORTED, STATUS_TIME_OUT])
            (createVideoMode 320 240 60 PIXEL_FORMAT_RGB888) (example_rgb False True)) \<and>
   videoMode (stream (example_rgb False True)) = createVideoMode 640 480 30 PIXEL_FORMAT_RGB888 \<and>
   videoMode (stream (snd (tryConfigureVideoMode
            (half_applying_hardware [STATUS_NOT_SUPPORTED, STATUS_TIME_OUT])
            (createVideoMode 320 240 60 PIXEL_FORMAT_RGB888) (example_rgb False True)))) =
     createVideoMode 320 240 30 PIXEL_FORMAT_RGB888"
  by (simp add: tryConfigureVideoMode_eq example_defs Let_def)

text \<open>
  C4. For every registration mode of the device and every pixel format of the depth
  stream, \<^verbatim>\<open>updateActivePublisher\<close> selects: for depth in millimetres the primary
  depth publisher with the depth frame id when registration is off, and the
  registered depth publisher with the colour frame id when depth is registered to
  colour; for the disparity format the disparity publisher of the same pair with the
  same frame id; for any other format no publisher. \<^verbatim>\<open>publish\<close> then hands the
  frame to the selected publisher only, and does nothing at all when none is
  selected; a frame that arrives is published under the selected frame id.
\<close>

theorem depth_router_selects_channel:
  "(let s' = updateActivePublisher dev s;
        format = pixelFormat (videoMode (stream s));
        mode = registrationMode dev
    in (format = PIXEL_FORMAT_DEPTH_1_MM \<and> mode = IMAGE_REGISTRATION_OFF \<longrightarrow>
          active_publisher s' = Some publisher \<and> frame_id s' = depth_frame_id s) \<and>
       (format = PIXEL_FORMAT_DEPTH_1_MM \<and> mode = IMAGE_REGISTRATION_DEPTH_TO_COLOR \<longrightarrow>
          active_publisher s' = Some depth_registered_publisher \<and> frame_id s' = rgb_frame_id s) \<and>
       (format = PIXEL_FORMAT_SHIFT_9_2 \<and> mode = IMAGE_REGISTRATION_OFF \<longrightarrow>
          active_publisher s' = Some disparity_publisher \<and> frame_id s' = depth_frame_id s) \<and>
       (format = PIXEL_FORMAT_SHIFT_9_2 \<and> mode = IMAGE_REGISTRATION_DEPTH_TO_COLOR \<longrightarrow>
          active_publisher s' = Some disparity_registered_publisher \<and>
          frame_id s' = rgb_frame_id s) \<and>
       (format \<noteq> PIXEL_FORMAT_DEPTH_1_MM \<and> format \<noteq> PIXEL_FORMAT_SHIFT_9_2 \<longrightarrow>
          active_publisher s' = None \<and> depth_publish img info s' = s') \<and>
       trace (depth_publish img info s') =
         trace s @ (case active_publisher s' of
                      None \<Rightarrow> []
                    | Some p \<Rightarrow> [Ctl (name s) (Publish p img info)]) \<and>
       trace (depth_onNewFrame ts frame s') =
         trace s @
         (if encoding_of (pixelFormat (frame_videoMode frame)) = None
          then [Ctl (name s) (Log WARN Unknown_OpenNI_pixel_format)] else []) @
         (case active_publisher s' of
            None \<Rightarrow> []
          | Some p \<Rightarrow> [Ctl (name s)
              (Publish p (image_of ts (frame_id s') frame) (camera_info_of ts (frame_id s') frame))]))"
  by (cases "registrationMode dev")
    (simp_all add: Let_def depth_onNewFrame_trace updateActivePublisher_eq depth_publish_def emit_def)

theorem depth_router_selects_channel_witness:
  "pixelFormat (videoMode (stream (example_depth True False PIXEL_FORMAT_SHIFT_9_2))) =
     PIXEL_FORMAT_SHIFT_9_2 \<and>
   registrationMode (example_device IMAGE_REGISTRATION_DEPTH_TO_COLOR) =
     IMAGE_REGISTRATION_DEPTH_TO_COLOR \<and>
   active_publisher (updateActivePublisher (example_device IMAGE_REGISTRATION_DEPTH_TO_COLOR)
       (example_depth True False PIXEL_FORMAT_SHIFT_9_2)) = Some disparity_registered_publisher \<and>
   frame_id (updateActivePublisher (example_device IMAGE_REGISTRATION_DEPTH_TO_COLOR)
       (example_depth True False PIXEL_FORMAT_SHIFT_9_2)) = ''camera_rgb_optical_frame'' \<and>
   pixelFormat (videoMode (stream (example_depth True False PIXEL_FORMAT_DEPTH_100_UM))) \<noteq>
     PIXEL_FORMAT_DEPTH_1_MM \<and>
   pixelFormat (videoMode (stream (example_depth True False PIXEL_FORMAT_DEPTH_100_UM))) \<noteq>
     PIXEL_FORMAT_SHIFT_9_2 \<and>
   active_publisher (updateActivePublisher (example_device IMAGE_REGISTRATION_OFF)
       (example_depth True False PIXEL_FORMAT_DEPTH_100_UM)) = None"
  using depth_router_selects_channel
      [of "example_device IMAGE_REGISTRATION_DEPTH_TO_COLOR"
          "example_depth True False PIXEL_FORMAT_SHIFT_9_2"]
    depth_router_selects_channel
      [of "example_device IMAGE_REGISTRATION_OFF"
          "example_depth True False PIXEL_FORMAT_DEPTH_100_UM"]
  by (simp add: example_defs Let_def)

text \<open>
  C5, where the code agrees with it. After any non-empty sequence of subscription
  notifications, starting from any state of the controller, if the last
  \<^verbatim>\<open>start\<close> attempt in the trace (if there is one) succeeded, then \<open>running\<close>
  holds exactly when the subscriber count of the last notification is positive. For
  the depth controller the count is \<open>all_clients\<close>, the value that lines 398-400
  compute; it is the sum of the four counts whenever each is below \<open>2^31\<close>. If the
  stream was started exactly when \<open>running\<close> held before, that is so afterwards too.
\<close>

theorem running_tracks_subscribers:
  "(ns \<noteq> [] \<and>
    last_start_succeeded (trace (foldl (\<lambda>s n. onSubscriptionChanged hw n s) s ns))
    \<longrightarrow> running (foldl (\<lambda>s n. onSubscriptionChanged hw n s) s ns) = (0 < last ns)) \<and>
   (started (stream s) = running s
    \<longrightarrow> started (stream (foldl (\<lambda>s n. onSubscriptionChanged hw n s) s ns)) =
          running (foldl (\<lambda>s n. onSubscriptionChanged hw n s) s ns)) \<and>
   (cs \<noteq> [] \<and>
    last_start_succeeded
      (trace (foldl (\<lambda>d c. depth_onSubscriptionChanged hw (fst c) (snd c) d) d cs))
    \<longrightarrow> running (foldl (\<lambda>d c. depth_onSubscriptionChanged hw (fst c) (snd c) d) d cs)
          = (0 < all_clients (snd (last cs)))) \<and>
   (started (stream d) = running d
    \<longrightarrow> started (stream (foldl (\<lambda>d c. depth_onSubscriptionChanged hw (fst c) (snd c) d) d cs)) =
          running (foldl (\<lambda>d c. depth_onSubscriptionChanged hw (fst c) (snd c) d) d cs)) \<and>
   ((\<forall>p. unat (subs p) < 2 ^ 31) \<longrightarrow>
      unat (all_clients subs) =
        unat (subs publisher) + unat (subs depth_registered_publisher) +
        unat (subs disparity_publisher) + unat (subs disparity_registered_publisher))"
proof (intro conjI impI)
  assume h: "ns \<noteq> [] \<and>
    last_start_succeeded (trace (foldl (\<lambda>s n. onSubscriptionChanged hw n s) s ns))"
  then have split: "ns = butlast ns @ [last ns]"
    by simp
  define s0 where "s0 = foldl (\<lambda>s n. onSubscriptionChanged hw n s) s (butlast ns)"
  have run: "foldl (\<lambda>s n. onSubscriptionChanged hw n s) s ns = onSubscriptionChanged hw (last ns) s0"
    by (subst split) (simp add: s0_def)
  show "running (foldl (\<lambda>s n. onSubscriptionChanged hw n s) s ns) = (0 < last ns)"
    using h unfolding run by (intro onSubscriptionChanged_tracks) simp
next
  assume "started (stream s) = running s"
  then show "started (stream (foldl (\<lambda>s n. onSubscriptionChanged hw n s) s ns)) =
          running (foldl (\<lambda>s n. onSubscriptionChanged hw n s) s ns)"
    by (rule notifications_in_step)
next
  assume h: "cs \<noteq> [] \<and>
    last_start_succeeded
      (trace (foldl (\<lambda>d c. depth_onSubscriptionChanged hw (fst c) (snd c) d) d cs))"
  then have split: "cs = butlast cs @ [last cs]"
    by simp
  define d0 where "d0 = foldl (\<lambda>d c. depth_onSubscriptionChanged hw (fst c) (snd c) d) d (butlast cs)"
  have run: "foldl (\<lambda>d c. depth_onSubscriptionChanged hw (fst c) (snd c) d) d cs =
      depth_onSubscriptionChanged hw (fst (last cs)) (snd (last cs)) d0"
    by (subst split) (simp add: d0_def)
  show "running (foldl (\<lambda>d c. depth_onSubscriptionChanged hw (fst c) (snd c) d) d cs)
          = (0 < all_clients (snd (last cs)))"
    using h unfolding run by (intro depth_onSubscriptionChanged_tracks) simp
next
  assume "started (stream d) = running d"
  then show "started (stream (foldl (\<lambda>d c. depth_onSubscriptionChanged hw (fst c) (snd c) d) d cs)) =
          running (foldl (\<lambda>d c. depth_onSubscriptionChanged hw (fst c) (snd c) d) d cs)"
    by (rule depth_notifications_in_step)
next
  assume "\<forall>p. unat (subs p) < 2 ^ 31"
  then show "unat (all_clients subs) =
        unat (subs publisher) + unat (subs depth_registered_publisher) +
        unat (subs disparity_publisher) + unat (subs disparity_registered_publisher)"
    by (rule all_clients_exact)
qed

theorem running_tracks_subscribers_witness:
  "[2, 0, 3 :: 32 word] \<noteq> [] \<and>
   last_start_succeeded
     (trace (foldl (\<lambda>s n. onSubscriptionChanged (example_hardware []) n s)
               (example_rgb False False) [2, 0, 3])) \<and>
   running (foldl (\<lambda>s n. onSubscriptionChanged (example_hardware []) n s)
              (example_rgb False False) [2, 0, 3]) \<and>
   \<not> running (foldl (\<lambda>s n. onSubscriptionChanged (example_hardware []) n s)
              (example_rgb False False) [2, 0]) \<and>
   running (foldl (\<lambda>d c. depth_onSubscriptionChanged (example_hardware []) (fst c) (snd c) d)
              (example_depth False False PIXEL_FORMAT_SHIFT_9_2)
              [(example_device IMAGE_REGISTRATION_OFF, one_disparity_client)])"
proof -
  let ?hw = "example_hardware []"
  let ?run = "\<lambda>ns. foldl (\<lambda>s n. onSubscriptionChanged ?hw n s) (example_rgb False False) ns"
  let ?cs = "[(example_device IMAGE_REGISTRATION_OFF, one_disparity_client)]"
  let ?drun = "foldl (\<lambda>d c. depth_onSubscriptionChanged ?hw (fst c) (snd c) d)
                 (example_depth False False PIXEL_FORMAT_SHIFT_9_2) ?cs"
  have t3: "trace (?run [2, 0, 3]) =
      map (Ctl ''rgb'') [Start STATUS_OK, Stop, Start STATUS_OK]"
    by (simp add: onSubscriptionChanged_eq example_defs)
  have t2: "trace (?run [2, 0]) = map (Ctl ''rgb'') [Start STATUS_OK, Stop]"
    by (simp add: onSubscriptionChanged_eq example_defs)
  have td: "trace ?drun = [Ctl ''depth'' (Start STATUS_OK)]"
    by (simp add: depth_onSubscriptionChanged_sel all_clients_one example_defs)
  have s3: "last_start_succeeded (trace (?run [2, 0, 3]))"
    by (simp only: t3) (simp add: last_start_succeeded_def)
  have s2: "last_start_succeeded (trace (?run [2, 0]))"
    by (simp only: t2) (simp add: last_start_succeeded_def)
  have sd: "last_start_succeeded (trace ?drun)"
    by (simp only: td) (simp add: last_start_succeeded_def)
  have "running (?run [2, 0, 3])"
    using running_tracks_subscribers
      [of "[2, 0, 3]" ?hw "example_rgb False False" ?cs
          "example_depth False False PIXEL_FORMAT_SHIFT_9_2" one_disparity_client] s3
    by simp
  moreover have "\<not> running (?run [2, 0])"
    using running_tracks_subscribers
      [of "[2, 0]" ?hw "example_rgb False False" ?cs
          "example_depth False False PIXEL_FORMAT_SHIFT_9_2" one_disparity_client] s2
    by simp
  moreover have "running ?drun"
    using running_tracks_subscribers
      [of "[2]" ?hw "example_rgb False False" ?cs
          "example_depth False False PIXEL_FORMAT_SHIFT_9_2" one_disparity_client] sd
    by (simp add: all_clients_one)
  ultimately show ?thesis
    using s3 by simp
qed


text \<open>
  C6. In every state of a stream controller, \<^verbatim>\<open>beginConfigure\<close> records in
  \<open>was_running\<close> whether the stream was running, leaves \<open>running\<close> false and
  returns true. It calls \<^verbatim>\<open>stop\<close> on the stream exactly when the stream was running,
  so the stream itself is stopped afterwards unless it had been started behind the
  controller's back (\<open>started\<close> without \<open>running\<close>), a state no method of the
  controller produces.
\<close>

theorem beginConfigure_records_and_stops:
  "fst (beginConfigure s) = True \<and>
   was_running (snd (beginConfigure s)) = running s \<and>
   running (snd (beginConfigure s)) = False \<and>
   started (stream (snd (beginConfigure s))) = (started (stream s) \<and> \<not> running s) \<and>
   trace (snd (beginConfigure s)) =
     trace s @ Ctl (name s) BeginConfigure # (if running s then [Ctl (name s) Stop] else [])"
  by (simp add: beginConfigure_eq)

theorem beginConfigure_records_and_stops_witness:
  "fst (beginConfigure (example_rgb True False)) = True \<and>
   was_running (snd (beginConfigure (example_rgb True False))) = True \<and>
   running (snd (beginConfigure (example_rgb True False))) = False \<and>
   started (stream (snd (beginConfigure (example_rgb True False)))) = False \<and>
   trace (snd (beginConfigure (example_rgb True False))) =
     [Ctl ''rgb'' BeginConfigure, Ctl ''rgb'' Stop]"
  using beginConfigure_records_and_stops [of "example_rgb True False"]
  by (simp add: example_defs)

text \<open>
  C7. Whenever the asserts of \<^verbatim>\<open>configure\<close> hold, whatever the mask flags,
  \<^verbatim>\<open>configure\<close> returns normally and what it adds to the trace is the visit of the
  colour controller, then the visit of the depth controller, then the visit of the
  infrared controller (nothing for a sensor that is not there), then one call that
  switches depth-colour synchronization on, which is then on. When an assert
  fails, \<^verbatim>\<open>configure\<close> stops there.
\<close>

theorem configure_visits_sensors_in_order:
  "(asserts_hold cfg level cam \<longrightarrow>
      (\<exists>cfg' cam' er ed ei.
          configure hw cfg level cam = Inr (cfg', cam') \<and>
          effects cam' = effects cam @ er @ ed @ ei @ [SetDepthColorSyncEnabled True] \<and>
          visit_of False (rgb_sensor cam) er \<and>
          visit_of True (depth_sensor cam) ed \<and>
          visit_of False (ir_sensor cam) ei \<and>
          depthColorSyncEnabled (device cam'))) \<and>
   (\<not> asserts_hold cfg level cam \<longrightarrow> configure hw cfg level cam = Inl AssertionFailed)"
proof (intro conjI impI)
  assume "asserts_hold cfg level cam"
  from configure_completes [OF this, of hw]
  show "\<exists>cfg' cam' er ed ei.
          configure hw cfg level cam = Inr (cfg', cam') \<and>
          effects cam' = effects cam @ er @ ed @ ei @ [SetDepthColorSyncEnabled True] \<and>
          visit_of False (rgb_sensor cam) er \<and>
          visit_of True (depth_sensor cam) ed \<and>
          visit_of False (ir_sensor cam) ei \<and>
          depthColorSyncEnabled (device cam')"
    by blast
next
  assume "\<not> asserts_hold cfg level cam"
  then show "configure hw cfg level cam = Inl AssertionFailed"
    by (rule configure_aborts)
qed

theorem configure_visits_sensors_in_order_witness:
  "asserts_hold (example_config True) 255 example_camera \<and>
   (\<exists>cfg' cam' er ed.
       configure (example_hardware []) (example_config True) 255 example_camera = Inr (cfg', cam') \<and>
       effects cam' = er @ ed @ [SetDepthColorSyncEnabled True] \<and>
       visit False ''rgb'' er \<and> visit True ''depth'' ed \<and>
       depthColorSyncEnabled (device cam'))"
proof -
  have a: "asserts_hold (example_config True) 255 example_camera"
    by (simp add: asserts_hold_def camera_defs)
  from configure_visits_sensors_in_order
    [of "example_config True" 255 example_camera "example_hardware []"] a
  obtain cfg' cam' er ed ei where
    "configure (example_hardware []) (example_config True) 255 example_camera = Inr (cfg', cam')"
    "effects cam' = effects example_camera @ er @ ed @ ei @ [SetDepthColorSyncEnabled True]"
    "visit_of False (rgb_sensor example_camera) er"
    "visit_of True (depth_sensor example_camera) ed"
    "visit_of False (ir_sensor example_camera) ei"
    "depthColorSyncEnabled (device cam')"
    by blast
  then have
    "configure (example_hardware []) (example_config True) 255 example_camera = Inr (cfg', cam') \<and>
     effects cam' = er @ ed @ [SetDepthColorSyncEnabled True] \<and>
     visit False ''rgb'' er \<and> visit True ''depth'' ed \<and>
     depthColorSyncEnabled (device cam')"
    by (simp add: visit_of_def camera_defs example_defs)
  then show ?thesis
    using a by blast
qed

text \<open>
  C8, as the code has it. Let a request whose asserts hold ask for depth
  registration on a device that does not support it. Then \<^verbatim>\<open>configure\<close> returns
  normally and leaves the registration mode of the device as it was. The accepted
  configuration is the request with \<open>depth_registration\<close> false if the device has a
  depth sensor and the mask flags the registration field (bit 0); otherwise it is
  the request unchanged.
\<close>

theorem unsupported_registration_falls_back:
  assumes "asserts_hold cfg level cam"
    and "depth_registration cfg" and "\<not> registration_supported hw"
  shows "\<exists>cfg' cam'.
           configure hw cfg level cam = Inr (cfg', cam') \<and>
           cfg' = (if depth_sensor cam \<noteq> SensorStreamManagerBase \<and> level AND 1 \<noteq> 0
                   then cfg\<lparr>depth_registration := False\<rparr> else cfg) \<and>
           registrationMode (device cam') = registrationMode (device cam)"
proof -
  from configure_completes [OF assms(1), of hw] obtain cfg' cam' where
    "configure hw cfg level cam = Inr (cfg', cam')" and
    "cfg' = (if depth_sensor cam = SensorStreamManagerBase then cfg
             else fst (configure_registration hw (level AND 1 \<noteq> 0) (cfg, device cam, [])))" and
    "registrationMode (device cam') =
       registrationMode
         (if depth_sensor cam = SensorStreamManagerBase then device cam
          else fst (snd (configure_registration hw (level AND 1 \<noteq> 0) (cfg, device cam, []))))"
    by blast
  then show ?thesis
    using assms(2,3) by (simp add: configure_registration_eq)
qed

theorem unsupported_registration_falls_back_witness:
  "asserts_hold (example_config True) 255 example_camera \<and>
   depth_registration (example_config True) \<and>
   \<not> registration_supported (example_hardware []) \<and>
   depth_sensor example_camera \<noteq> SensorStreamManagerBase \<and>
   (255 :: 32 word) AND 1 \<noteq> 0 \<and>
   (\<exists>cam'. configure (example_hardware []) (example_config True) 255 example_camera =
              Inr (example_config False, cam') \<and>
            registrationMode (device cam') = IMAGE_REGISTRATION_OFF)"
proof -
  have a: "asserts_hold (example_config True) 255 example_camera"
    by (simp add: asserts_hold_def camera_defs)
  have b: "depth_registration (example_config True)"
    by (simp add: camera_defs)
  have c: "\<not> registration_supported (example_hardware [])"
    by (simp add: example_defs)
  from unsupported_registration_falls_back [OF a b c]
  have "\<exists>cam'. configure (example_hardware []) (example_config True) 255 example_camera =
              Inr (example_config False, cam') \<and>
            registrationMode (device cam') = IMAGE_REGISTRATION_OFF"
    by (simp add: camera_defs example_defs)
  then show ?thesis
    using a b c by (simp add: camera_defs)
qed

text \<open>
  C8, as the claim states it, fails: on a camera with a colour sensor only, a request
  that sets \<open>depth_registration\<close>, flagged in the mask, comes back with
  \<open>depth_registration\<close> still true, although the device does not support registration.
\<close>

theorem unsupported_registration_counterexample:
  "depth_registration (example_config True) \<and>
   \<not> registration_supported (example_hardware []) \<and>
   (1 :: 32 word) AND 1 \<noteq> 0 \<and>
   map_sum id fst (configure (example_hardware []) (example_config True) 1 colour_only_camera) =
     Inr (example_config True)"
proof -
  have a: "asserts_hold (example_config True) 1 colour_only_camera"
    by (simp add: asserts_hold_def camera_defs)
  from configure_completes [OF a, of "example_hardware []"]
  have "map_sum id fst (configure (example_hardware []) (example_config True) 1 colour_only_camera) =
      Inr (example_config True)"
    by (auto simp add: camera_defs)
  then show ?thesis
    by (simp add: camera_defs example_defs)
qed

text \<open>
  C9. For every frame, \<^verbatim>\<open>onNewFrame\<close> publishes a \<open>K\<close> whose two focal entries are
  the double product of 1050 and the double quotient of the width by 1280, whose
  principal point is exactly \<open>(width / 2 - 1 / 2, height / 2 - 1 / 2)\<close>, and whose
  other entries are zero. The focal entries are exactly \<open>1050 * width / 1280\<close> when 5
  divides the width. For a frame of 1280 by 960 the focal entries are 1050 and the
  principal point is (639.5, 479.5).
\<close>

theorem onNewFrame_intrinsics:
  "(- (2 ^ 31) \<le> frame_width frame \<and> frame_width frame < 2 ^ 31 \<and>
    - (2 ^ 31) \<le> frame_height frame \<and> frame_height frame < 2 ^ 31 \<longrightarrow>
      K (camera_info_of ts (frame_id s) frame) =
        [binary64 (1050 * binary64 (of_int (frame_width frame) / 1280)), 0,
         of_int (frame_width frame) / 2 - 1 / 2, 0,
         binary64 (1050 * binary64 (of_int (frame_width frame) / 1280)),
         of_int (frame_height frame) / 2 - 1 / 2, 0, 0, 0] \<and>
      (5 dvd frame_width frame \<longrightarrow>
         binary64 (1050 * binary64 (of_int (frame_width frame) / 1280)) =
           1050 * (of_int (frame_width frame) / 1280))) \<and>
   (frame_width frame = 1280 \<and> frame_height frame = 960 \<longrightarrow>
      K (camera_info_of ts (frame_id s) frame) = [1050, 0, 1279 / 2, 0, 1050, 959 / 2, 0, 0, 0]) \<and>
   trace (onNewFrame ts frame s) =
     trace s @
     (if encoding_of (pixelFormat (frame_videoMode frame)) = None
      then [Ctl (name s) (Log WARN Unknown_OpenNI_pixel_format)] else []) @
     [Ctl (name s)
        (Publish publisher (image_of ts (frame_id s) frame)
           (camera_info_of ts (frame_id s) frame))]"
proof (intro conjI impI)
  assume range: "- (2 ^ 31) \<le> frame_width frame \<and> frame_width frame < 2 ^ 31 \<and>
    - (2 ^ 31) \<le> frame_height frame \<and> frame_height frame < 2 ^ 31"
  then show "K (camera_info_of ts (frame_id s) frame) =
        [binary64 (1050 * binary64 (of_int (frame_width frame) / 1280)), 0,
         of_int (frame_width frame) / 2 - 1 / 2, 0,
         binary64 (1050 * binary64 (of_int (frame_width frame) / 1280)),
         of_int (frame_height frame) / 2 - 1 / 2, 0, 0, 0]"
    by (simp only: K_shape centre_exact)
  assume "5 dvd frame_width frame"
  with range show "binary64 (1050 * binary64 (of_int (frame_width frame) / 1280)) =
           1050 * (of_int (frame_width frame) / 1280)"
    by (simp only: focal_exact)
next
  assume size: "frame_width frame = 1280 \<and> frame_height frame = 960"
  have "binary64 (1050 * binary64 (of_int 1280 / 1280)) = 1050 * (of_int 1280 / 1280)"
    by (rule focal_exact) simp_all
  moreover have "binary64 (binary64 (of_int 1280 / 2) - 1 / 2) = of_int 1280 / 2 - 1 / 2"
    and "binary64 (binary64 (of_int 960 / 2) - 1 / 2) = of_int 960 / 2 - 1 / 2"
    by (rule centre_exact; simp)+
  ultimately show "K (camera_info_of ts (frame_id s) frame) =
      [1050, 0, 1279 / 2, 0, 1050, 959 / 2, 0, 0, 0]"
    using size by (simp add: K_shape)
next
  show "trace (onNewFrame ts frame s) =
     trace s @
     (if encoding_of (pixelFormat (frame_videoMode frame)) = None
      then [Ctl (name s) (Log WARN Unknown_OpenNI_pixel_format)] else []) @
     [Ctl (name s)
        (Publish publisher (image_of ts (frame_id s) frame)
           (camera_info_of ts (frame_id s) frame))]"
    by (rule onNewFrame_trace)
qed

theorem onNewFrame_intrinsics_witness:
  "frame_width (example_frame 1280 960 PIXEL_FORMAT_RGB888) = 1280 \<and>
   frame_height (example_frame 1280 960 PIXEL_FORMAT_RGB888) = 960 \<and>
   K (camera_info_of 0 (frame_id (example_rgb True False))
        (example_frame 1280 960 PIXEL_FORMAT_RGB888)) =
     [1050, 0, 1279 / 2, 0, 1050, 959 / 2, 0, 0, 0] \<and>
   (5 :: int) dvd 640 \<and>
   K (camera_info_of 0 (frame_id (example_rgb True False))
        (example_frame 640 480 PIXEL_FORMAT_RGB888)) =
     [525, 0, 639 / 2, 0, 525, 479 / 2, 0, 0, 0]"
  using onNewFrame_intrinsics [of "example_frame 1280 960 PIXEL_FORMAT_RGB888" 0 "example_rgb True False"]
    onNewFrame_intrinsics [of "example_frame 640 480 PIXEL_FORMAT_RGB888" 0 "example_rgb True False"]
  by (simp add: example_frame_def)

text \<open>
  C10. When the first \<^verbatim>\<open>start\<close> of \<^verbatim>\<open>endConfigure\<close> fails and the start of the
  recovery trial succeeds, the controller is running, no \<^verbatim>\<open>setVideoMode\<close> call was
  made on the way, and the stream is in the mode it was created in (or still in its
  old mode if the device refused to create it). That mode need not be the one the
  stream had before: there is a device and a controller for which it differs.
\<close>

theorem recovery_keeps_created_mode:
  assumes "was_running s"
    and "answer hw (sensorType (stream s)) (calls (stream s)) \<noteq> STATUS_OK"
    and "answer hw (sensorType (stream s)) (calls (stream s) + 2) = STATUS_OK"
  shows
    "(let t = sensorType (stream s); k = calls (stream s); s' = endConfigure hw s
      in running s' \<and>
         videoMode (stream s') =
           (if answer hw t (k + 1) = STATUS_OK then created_mode hw t else videoMode (stream s)) \<and>
         (\<forall>n m rc. Ctl n (SetVideoMode m rc) \<notin> set (drop (length (trace s)) (trace s')))) \<and>
     (\<exists>hw' (s'::SensorStreamManager). was_running s' \<and>
        answer hw' (sensorType (stream s')) (calls (stream s')) \<noteq> STATUS_OK \<and>
        answer hw' (sensorType (stream s')) (calls (stream s') + 2) = STATUS_OK \<and>
        videoMode (stream (endConfigure hw' s')) \<noteq> videoMode (stream s'))"
proof -
  have "was_running (example_rgb False True) \<and>
        answer (example_hardware [STATUS_ERROR]) (sensorType (stream (example_rgb False True)))
          (calls (stream (example_rgb False True))) \<noteq> STATUS_OK \<and>
        answer (example_hardware [STATUS_ERROR]) (sensorType (stream (example_rgb False True)))
          (calls (stream (example_rgb False True)) + 2) = STATUS_OK \<and>
        videoMode (stream (endConfigure (example_hardware [STATUS_ERROR]) (example_rgb False True)))
          \<noteq> videoMode (stream (example_rgb False True))"
    by (simp add: endConfigure_recovering example_defs)
  then have ex: "\<exists>hw' (s'::SensorStreamManager). was_running s' \<and>
        answer hw' (sensorType (stream s')) (calls (stream s')) \<noteq> STATUS_OK \<and>
        answer hw' (sensorType (stream s')) (calls (stream s') + 2) = STATUS_OK \<and>
        videoMode (stream (endConfigure hw' s')) \<noteq> videoMode (stream s')"
    by blast
  show ?thesis
    using assms ex by (simp add: Let_def endConfigure_recovering)
qed

theorem recovery_keeps_created_mode_witness:
  "was_running (example_rgb False True) \<and>
   answer (example_hardware [STATUS_ERROR]) SENSOR_COLOR 0 \<noteq> STATUS_OK \<and>
   answer (example_hardware [STATUS_ERROR]) SENSOR_COLOR 2 = STATUS_OK \<and>
   running (endConfigure (example_hardware [STATUS_ERROR]) (example_rgb False True)) \<and>
   videoMode (stream (example_rgb False True)) = createVideoMode 640 480 30 PIXEL_FORMAT_RGB888 \<and>
   videoMode (stream (endConfigure (example_hardware [STATUS_ERROR]) (example_rgb False True))) =
     createVideoMode 320 240 30 PIXEL_FORMAT_RGB888"
proof -
  have a: "was_running (example_rgb False True)"
    by (simp add: example_defs)
  have b: "answer (example_hardware [STATUS_ERROR]) (sensorType (stream (example_rgb False True)))
             (calls (stream (example_rgb False True))) \<noteq> STATUS_OK"
    by (simp add: example_defs)
  have c: "answer (example_hardware [STATUS_ERROR]) (sensorType (stream (example_rgb False True)))
             (calls (stream (example_rgb False True)) + 2) = STATUS_OK"
    by (simp add: example_defs)
  have "running (endConfigure (example_hardware [STATUS_ERROR]) (example_rgb False True))"
    and "videoMode (stream (endConfigure (example_hardware [STATUS_ERROR]) (example_rgb False True))) =
       createVideoMode 320 240 30 PIXEL_FORMAT_RGB888"
    using recovery_keeps_created_mode [OF a b c]
    by (simp_all add: Let_def) (simp_all add: example_defs)
  then show ?thesis
    by (simp add: example_defs)
qed

end
